theory Spec2Isabelle
  imports Complex_Main
begin

section \<open>Data model of the hourly strategy\<close>

text \<open>
  The model follows \<^verbatim>\<open>src/btc_triple_signal_strategy_1h.py\<close> (class
  \<^verbatim>\<open>BtcTripleSignalStrategy1h\<close>) and \<^verbatim>\<open>src/binance_live_trader.py\<close> (class
  \<^verbatim>\<open>BinanceLiveTrader\<close>). Python floats are idealised as reals: the claims are about
  comparisons, assignments and decimal truncation, not about rounding error.

  The enumerations below are the constants of the trading library the strategy imports
  (\<^verbatim>\<open>Direction\<close> and \<^verbatim>\<open>Offset\<close>); \<^verbatim>\<open>OPEN\<close> is the member whose value is the string the
  source compares \<^verbatim>\<open>trade.offset.value\<close> with.
\<close>

datatype direction = LONG | SHORT | NET

datatype offset = NONE | OPEN | CLOSE | CLOSETODAY | CLOSEYESTERDAY

record bar_data =
  open_price :: real
  high_price :: real
  low_price :: real
  close_price :: real
  volume :: real

record tick_data =
  ask_price_1 :: real
  bid_price_1 :: real

record trade_data =
  trade_direction :: direction
  trade_offset :: offset
  trade_price :: real
  trade_volume :: real

text \<open>An order request handed to the engine: direction, offset, price, volume.\<close>

datatype order = Order direction offset real real

text \<open>
  One constructor per \<^verbatim>\<open>write_log\<close> call site of the modelled methods; the formatted
  numbers of the messages are left out.
\<close>

datatype log_msg =
    LogLongStopUpdate | LogShortStopUpdate
  | LogLongStopLoss | LogLongTakeProfit | LogLongReversal
  | LogShortStopLoss | LogShortTakeProfit | LogShortReversal
  | LogPassedFilters
  | LogLongDecision | LogShortDecision | LogVolumeConfirmed | LogSignalDetail
  | LogMarketBuy | LogLimitBuy | LogMarketSell | LogLimitSell
  | LogMarketShort | LogLimitShort | LogMarketCover | LogLimitCover
  | LogTrade | LogInitLongStop | LogInitShortStop
  | LogBarProgress | LogInitState | LogIndicatorValues | LogMaValues | LogWarmup

text \<open>
  The array manager is the library's rolling window. Of it the strategy reads the flag
  \<^verbatim>\<open>inited\<close>, which the library sets once \<^verbatim>\<open>count\<close> has reached the capacity the
  strategy passes to the constructor (200), and the indicator values, which are inputs of
  the model (record \<open>readings\<close>): what \<^verbatim>\<open>am.sma\<close>, \<^verbatim>\<open>am.rsi\<close>, \<^verbatim>\<open>am.macd\<close>,
  \<^verbatim>\<open>am.stoch\<close>, \<^verbatim>\<open>am.atr\<close>, \<^verbatim>\<open>am.adx\<close> and the mean of the volume window return on
  the bar at hand.
\<close>

record array_manager =
  am_count :: nat
  am_size :: nat
  inited :: bool

record readings =
  rd_fast_ma :: real
  rd_slow_ma :: real
  rd_rsi :: real
  rd_macd_hist :: real
  rd_k :: real
  rd_d :: real
  rd_atr :: real
  rd_adx :: real
  rd_volume_ma :: real

text \<open>
  The strategy object: the parameters the modelled methods read, the state variables, the
  position \<open>pos\<close> (written by the engine, never by the strategy), and the two output
  channels: the order requests issued so far and the log.
\<close>

record strategy =
  signal_num :: int
  fixed_size :: real
  rsi_buy_level :: real
  rsi_sell_level :: real
  trailing_stop_activation_pct :: real
  slippage_tolerance_pct :: real
  atr_multiplier :: real
  adx_threshold :: real
  volume_multiplier :: real
  fast_ma0 :: real
  fast_ma1 :: real
  slow_ma0 :: real
  slow_ma1 :: real
  ma_trend :: int
  signal_count :: int
  intra_trade_high :: real
  intra_trade_low :: real
  trailing_stop_price :: real
  atr_value :: real
  adx_value :: real
  rsi_value :: real
  macd_value :: real
  k_value :: real
  d_value :: real
  last_k :: real
  last_d :: real
  entry_price :: real
  bar_count :: nat
  last_price :: real
  stoch_cross_over :: bool
  last_tick :: "tick_data option"
  pos :: real
  am :: array_manager
  orders :: "order list"
  logs :: "log_msg list"

text \<open>The class attributes and the values set by \<^verbatim>\<open>__init__\<close>.\<close>

definition init_strategy :: strategy where
  "init_strategy = \<lparr>
     signal_num = 2, fixed_size = 0.01, rsi_buy_level = 30, rsi_sell_level = 70,
     trailing_stop_activation_pct = 0.01, slippage_tolerance_pct = 0.001,
     atr_multiplier = 2.5, adx_threshold = 20, volume_multiplier = 1.2,
     fast_ma0 = 0, fast_ma1 = 0, slow_ma0 = 0, slow_ma1 = 0,
     ma_trend = 0, signal_count = 0, intra_trade_high = 0, intra_trade_low = 0,
     trailing_stop_price = 0, atr_value = 0, adx_value = 0,
     rsi_value = 0, macd_value = 0, k_value = 0, d_value = 0, last_k = 0, last_d = 0,
     entry_price = 0, bar_count = 0, last_price = 0, stoch_cross_over = False,
     last_tick = None, pos = 0,
     am = \<lparr>am_count = 0, am_size = 200, inited = False\<rparr>,
     orders = [], logs = []\<rparr>"

section \<open>Order placement\<close>

definition write_log :: "log_msg \<Rightarrow> strategy \<Rightarrow> strategy" where
  "write_log m s = s\<lparr>logs := logs s @ [m]\<rparr>"

definition send_order :: "direction \<Rightarrow> offset \<Rightarrow> real \<Rightarrow> real \<Rightarrow> strategy \<Rightarrow> strategy" where
  "send_order d off p v s = s\<lparr>orders := orders s @ [Order d off p v]\<rparr>"

text \<open>The four order methods of the template: buy and short open, sell and cover close.\<close>

definition buy :: "real \<Rightarrow> real \<Rightarrow> strategy \<Rightarrow> strategy" where
  "buy p v s = send_order LONG OPEN p v s"

definition sell :: "real \<Rightarrow> real \<Rightarrow> strategy \<Rightarrow> strategy" where
  "sell p v s = send_order SHORT CLOSE p v s"

definition short :: "real \<Rightarrow> real \<Rightarrow> strategy \<Rightarrow> strategy" where
  "short p v s = send_order SHORT OPEN p v s"

definition cover :: "real \<Rightarrow> real \<Rightarrow> strategy \<Rightarrow> strategy" where
  "cover p v s = send_order LONG CLOSE p v s"

definition controlled_buy :: "real \<Rightarrow> strategy \<Rightarrow> strategy" where
  "controlled_buy v s =
     (case last_tick s of
        None \<Rightarrow> buy (last_price s) v (write_log LogMarketBuy s)
      | Some t \<Rightarrow>
          write_log LogLimitBuy (buy (ask_price_1 t * (1 + slippage_tolerance_pct s)) v s))"

definition controlled_sell :: "real \<Rightarrow> strategy \<Rightarrow> strategy" where
  "controlled_sell v s =
     (case last_tick s of
        None \<Rightarrow> sell (last_price s) v (write_log LogMarketSell s)
      | Some t \<Rightarrow>
          write_log LogLimitSell (sell (bid_price_1 t * (1 - slippage_tolerance_pct s)) v s))"

definition controlled_short :: "real \<Rightarrow> strategy \<Rightarrow> strategy" where
  "controlled_short v s =
     (case last_tick s of
        None \<Rightarrow> short (last_price s) v (write_log LogMarketShort s)
      | Some t \<Rightarrow>
          write_log LogLimitShort (short (bid_price_1 t * (1 - slippage_tolerance_pct s)) v s))"

definition controlled_cover :: "real \<Rightarrow> strategy \<Rightarrow> strategy" where
  "controlled_cover v s =
     (case last_tick s of
        None \<Rightarrow> cover (last_price s) v (write_log LogMarketCover s)
      | Some t \<Rightarrow>
          write_log LogLimitCover (cover (ask_price_1 t * (1 + slippage_tolerance_pct s)) v s))"

section \<open>Position management\<close>

text \<open>
  \<^verbatim>\<open>manage_long_position\<close>: the ratchet update of the stop, then the exit chain
  \<^verbatim>\<open>if\<close> / \<^verbatim>\<open>elif\<close> / \<^verbatim>\<open>elif\<close>. The result is the returned flag and the strategy after
  the call.
\<close>

definition manage_long_position :: "strategy \<Rightarrow> bar_data \<Rightarrow> bool \<times> strategy" where
  "manage_long_position s bar =
     (let s1 =
        (if close_price bar > entry_price s * (1 + trailing_stop_activation_pct s) then
           (let new_stop_price = intra_trade_high s - atr_value s * atr_multiplier s in
            if new_stop_price > trailing_stop_price s
            then write_log LogLongStopUpdate (s\<lparr>trailing_stop_price := new_stop_price\<rparr>)
            else s)
         else s)
      in
        if close_price bar \<le> trailing_stop_price s1 then
          (True, write_log LogLongStopLoss (controlled_sell \<bar>pos s1\<bar> s1))
        else if rsi_value s1 \<ge> rsi_sell_level s1 then
          (True, write_log LogLongTakeProfit (controlled_sell \<bar>pos s1\<bar> s1))
        else if signal_count s1 \<ge> signal_num s1 \<and> ma_trend s1 = - 1 then
          (True, write_log LogLongReversal (controlled_sell \<bar>pos s1\<bar> s1))
        else (False, s1))"

definition manage_short_position :: "strategy \<Rightarrow> bar_data \<Rightarrow> bool \<times> strategy" where
  "manage_short_position s bar =
     (let s1 =
        (if close_price bar < entry_price s * (1 - trailing_stop_activation_pct s) then
           (let new_stop_price = intra_trade_low s + atr_value s * atr_multiplier s in
            if trailing_stop_price s = 0 \<or> new_stop_price < trailing_stop_price s
            then write_log LogShortStopUpdate (s\<lparr>trailing_stop_price := new_stop_price\<rparr>)
            else s)
         else s)
      in
        if close_price bar \<ge> trailing_stop_price s1 then
          (True, write_log LogShortStopLoss (controlled_cover \<bar>pos s1\<bar> s1))
        else if rsi_value s1 \<le> rsi_buy_level s1 then
          (True, write_log LogShortTakeProfit (controlled_cover \<bar>pos s1\<bar> s1))
        else if signal_count s1 \<ge> signal_num s1 \<and> ma_trend s1 = 1 then
          (True, write_log LogShortReversal (controlled_cover \<bar>pos s1\<bar> s1))
        else (False, s1))"

section \<open>Fills\<close>

text \<open>
  \<^verbatim>\<open>on_trade\<close>: an opening fill records the entry and the first stop, any other fill
  resets the four trade variables. The position itself is updated by the engine.
\<close>

definition on_trade :: "strategy \<Rightarrow> trade_data \<Rightarrow> strategy" where
  "on_trade s0 trade =
     (let s = write_log LogTrade s0 in
      if trade_offset trade = OPEN then
        (let s1 = s\<lparr>entry_price := trade_price trade\<rparr> in
         if trade_direction trade = LONG then
           write_log LogInitLongStop
             (s1\<lparr>intra_trade_high := trade_price trade,
                 trailing_stop_price := trade_price trade - atr_value s1 * atr_multiplier s1\<rparr>)
         else
           write_log LogInitShortStop
             (s1\<lparr>intra_trade_low := trade_price trade,
                 trailing_stop_price := trade_price trade + atr_value s1 * atr_multiplier s1\<rparr>))
      else
        s\<lparr>entry_price := 0, intra_trade_high := 0, intra_trade_low := 0,
          trailing_stop_price := 0\<rparr>)"

section \<open>Bar processing\<close>

text \<open>
  Modelled from the spec: the array manager's \<^verbatim>\<open>update_bar\<close> and its \<^verbatim>\<open>inited\<close> flag
  belong to the imported library and are not in the repository. The flag becomes true once
  the number of bars stored has reached the required lookback (\<open>am_size\<close>, the capacity
  200 the strategy constructs the manager with) and stays true.
\<close>

definition update_bar :: "array_manager \<Rightarrow> array_manager" where
  "update_bar a =
     (let c = am_count a + 1 in
      a\<lparr>am_count := c, inited := (inited a \<or> am_size a \<le> c)\<rparr>)"

text \<open>
  \<^verbatim>\<open>calculate_indicators\<close>: the previous values are shifted, the new readings stored,
  and the stochastic cross flag is set on a golden cross, cleared on a dead cross and left
  as it is otherwise.
\<close>

definition calculate_indicators :: "strategy \<Rightarrow> readings \<Rightarrow> strategy" where
  "calculate_indicators s rd =
     (if \<not> inited (am s) then s
      else
        let s1 = s\<lparr>fast_ma1 := fast_ma0 s, slow_ma1 := slow_ma0 s\<rparr>;
            s2 = s1\<lparr>fast_ma0 := rd_fast_ma rd, slow_ma0 := rd_slow_ma rd\<rparr>;
            s3 = s2\<lparr>ma_trend :=
                   (if fast_ma0 s2 > slow_ma0 s2 then 1
                    else if fast_ma0 s2 < slow_ma0 s2 then - 1 else 0)\<rparr>;
            s4 = s3\<lparr>rsi_value := rd_rsi rd, macd_value := rd_macd_hist rd\<rparr>;
            s5 = s4\<lparr>last_k := k_value s4, last_d := d_value s4\<rparr>;
            s6 = s5\<lparr>k_value := rd_k rd, d_value := rd_d rd\<rparr>;
            s7 = (if last_k s6 < last_d s6 \<and> k_value s6 > d_value s6
                  then s6\<lparr>stoch_cross_over := True\<rparr>
                  else if last_k s6 > last_d s6 \<and> k_value s6 < d_value s6
                  then s6\<lparr>stoch_cross_over := False\<rparr>
                  else s6)
        in s7\<lparr>atr_value := rd_atr rd, adx_value := rd_adx rd\<rparr>)"

text \<open>
  The three oscillator signals that \<^verbatim>\<open>generate_signals\<close> computes for the entry (its
  local variables \<^verbatim>\<open>rsi_signal\<close>, \<^verbatim>\<open>macd_signal\<close>, \<^verbatim>\<open>kdj_signal\<close>) and the two
  counts. A Python comparison added to an integer counts as 1 when it holds (\<open>of_bool\<close>).
\<close>

definition rsi_signal :: "strategy \<Rightarrow> int" where
  "rsi_signal s =
     (if rsi_value s \<le> rsi_buy_level s then 1
      else if rsi_value s \<ge> rsi_sell_level s then - 1 else 0)"

definition macd_signal :: "strategy \<Rightarrow> int" where
  "macd_signal s = (if macd_value s > 0 then 1 else if macd_value s < 0 then - 1 else 0)"

definition kdj_signal :: "strategy \<Rightarrow> int" where
  "kdj_signal s =
     (if stoch_cross_over s then 1
      else if \<not> stoch_cross_over s \<and> k_value s > 80 \<and> d_value s > 80 then - 1 else 0)"

definition long_signals :: "strategy \<Rightarrow> int" where
  "long_signals s =
     of_bool (rsi_signal s = 1) + of_bool (macd_signal s = 1) + of_bool (kdj_signal s = 1)"

definition short_signals :: "strategy \<Rightarrow> int" where
  "short_signals s =
     of_bool (rsi_signal s = - 1) + of_bool (macd_signal s = - 1) + of_bool (kdj_signal s = - 1)"

text \<open>
  \<^verbatim>\<open>generate_signals\<close>: the guard on the array manager, the position-management block
  with its two returns, then the three layers of the entry logic: the ADX gate, the
  direction gate, and the signal counts with the volume confirmation.
\<close>

definition generate_signals :: "strategy \<Rightarrow> bar_data \<Rightarrow> readings \<Rightarrow> strategy" where
  "generate_signals s bar rd =
     (if \<not> inited (am s) then s
      else if pos s > 0 then snd (manage_long_position s bar)
      else if pos s < 0 then snd (manage_short_position s bar)
      else if adx_value s < adx_threshold s then s
      else
        let ma_signal = ma_trend s in
        if ma_signal = 0 then s
        else
          let s1 = write_log LogPassedFilters s;
              volume_ma = rd_volume_ma rd;
              volume_check_passed = (volume bar > volume_ma * volume_multiplier s1)
          in
            if \<not> volume_check_passed then s1
            else if ma_signal = 1 then
              (if long_signals s1 \<ge> signal_num s1 then
                 (let s2 = write_log LogSignalDetail
                             (write_log LogVolumeConfirmed (write_log LogLongDecision s1));
                      s3 = controlled_buy (fixed_size s2) s2
                  in s3\<lparr>entry_price := close_price bar, intra_trade_high := high_price bar\<rparr>)
               else s1)
            else if ma_signal = - 1 then
              (if short_signals s1 \<ge> signal_num s1 then
                 (let s2 = write_log LogSignalDetail
                             (write_log LogVolumeConfirmed (write_log LogShortDecision s1));
                      s3 = controlled_short (fixed_size s2) s2
                  in s3\<lparr>entry_price := close_price bar, intra_trade_low := low_price bar\<rparr>)
               else s1)
            else s1)"

text \<open>
  \<^verbatim>\<open>on_bar\<close>, in two parts. \<^verbatim>\<open>cancel_all\<close> withdraws resting orders at the engine
  and issues none; \<^verbatim>\<open>put_event\<close> refreshes the user interface. Neither touches the
  strategy object.

  The first part is the bookkeeping up to the progress message: the bar counter and the
  last price, the extreme of the side held, and the array manager.
\<close>

definition on_bar_update :: "strategy \<Rightarrow> bar_data \<Rightarrow> strategy" where
  "on_bar_update s0 bar =
     (let s1 = s0\<lparr>bar_count := bar_count s0 + 1, last_price := close_price bar\<rparr>;
          s2 = (if pos s1 > 0
                then s1\<lparr>intra_trade_high := max (intra_trade_high s1) (high_price bar)\<rparr>
                else if pos s1 < 0
                then s1\<lparr>intra_trade_low := min (intra_trade_low s1) (low_price bar)\<rparr>
                else s1);
          s3 = s2\<lparr>am := update_bar (am s2)\<rparr>
      in if bar_count s3 mod 100 = 0
         then write_log LogInitState (write_log LogBarProgress s3) else s3)"

text \<open>
  The second part is the branch on \<^verbatim>\<open>am.inited\<close>: indicators and signals on an
  initialised array manager, the warm-up message otherwise.
\<close>

definition on_bar :: "strategy \<Rightarrow> bar_data \<Rightarrow> readings \<Rightarrow> strategy" where
  "on_bar s0 bar rd =
     (let s4 = on_bar_update s0 bar in
      if inited (am s4) then
        (let s5 = calculate_indicators s4 rd;
             s6 = (if bar_count s5 mod 100 = 0
                   then write_log LogMaValues (write_log LogIndicatorValues s5) else s5)
         in generate_signals s6 bar rd)
      else if bar_count s4 mod 10 = 0 then write_log LogWarmup s4
      else s4)"

text \<open>The strategy as \<^verbatim>\<open>on_bar\<close> hands it to \<^verbatim>\<open>generate_signals\<close>.\<close>

definition signal_state :: "strategy \<Rightarrow> bar_data \<Rightarrow> readings \<Rightarrow> strategy" where
  "signal_state s0 bar rd =
     (let s5 = calculate_indicators (on_bar_update s0 bar) rd
      in if bar_count s5 mod 100 = 0
         then write_log LogMaValues (write_log LogIndicatorValues s5) else s5)"

text \<open>A run of the strategy over a feed of bars, each with the readings taken on it.\<close>

fun on_bars :: "strategy \<Rightarrow> (bar_data \<times> readings) list \<Rightarrow> strategy" where
  "on_bars s [] = s"
| "on_bars s (x # xs) = on_bars (on_bar s (fst x) (snd x)) xs"

text \<open>The stop after each bar of a run, in order.\<close>

fun stop_trace :: "strategy \<Rightarrow> (bar_data \<times> readings) list \<Rightarrow> real list" where
  "stop_trace s [] = []"
| "stop_trace s (x # xs) =
     trailing_stop_price (on_bar s (fst x) (snd x)) # stop_trace (on_bar s (fst x) (snd x)) xs"

text \<open>What a call added to the two output channels.\<close>

definition new_orders :: "strategy \<Rightarrow> strategy \<Rightarrow> order list" where
  "new_orders s s' = drop (length (orders s)) (orders s')"

definition new_logs :: "strategy \<Rightarrow> strategy \<Rightarrow> log_msg list" where
  "new_logs s s' = drop (length (logs s)) (logs s')"

fun is_exit_msg :: "log_msg \<Rightarrow> bool" where
  "is_exit_msg LogLongStopLoss = True"
| "is_exit_msg LogLongTakeProfit = True"
| "is_exit_msg LogLongReversal = True"
| "is_exit_msg LogShortStopLoss = True"
| "is_exit_msg LogShortTakeProfit = True"
| "is_exit_msg LogShortReversal = True"
| "is_exit_msg _ = False"

fun is_entry_msg :: "log_msg \<Rightarrow> bool" where
  "is_entry_msg LogPassedFilters = True"
| "is_entry_msg LogLongDecision = True"
| "is_entry_msg LogShortDecision = True"
| "is_entry_msg LogVolumeConfirmed = True"
| "is_entry_msg LogSignalDetail = True"
| "is_entry_msg LogMarketBuy = True"
| "is_entry_msg LogLimitBuy = True"
| "is_entry_msg LogMarketShort = True"
| "is_entry_msg LogLimitShort = True"
| "is_entry_msg _ = False"

fun is_open_order :: "order \<Rightarrow> bool" where
  "is_open_order (Order d off p v) = (off = OPEN)"

section \<open>The live trader\<close>

text \<open>
  \<^verbatim>\<open>round_quantity\<close> derives the number of decimals from the text of
  \<^verbatim>\<open>str(self.step_size)\<close> and truncates the quantity to it. The text that Python prints
  for the float is an input of the model (field \<open>step_size_repr\<close>): for 0.001 it is
  \<^verbatim>\<open>0.001\<close>, for 1.0 it is \<^verbatim>\<open>1.0\<close>, and below 0.0001 Python switches to the exponent
  form, so for 0.00001 it is \<^verbatim>\<open>1e-05\<close>.
\<close>

definition rstrip :: "char \<Rightarrow> string \<Rightarrow> string" where
  "rstrip c s = rev (dropWhile (\<lambda>x. x = c) (rev s))"

definition last_field :: "string \<Rightarrow> string" where
  "last_field s = rev (takeWhile (\<lambda>x. x \<noteq> CHR ''.'') (rev s))"

definition step_size_str :: "string \<Rightarrow> string" where
  "step_size_str r =
     (if CHR ''.'' \<in> set r then rstrip CHR ''.'' (rstrip CHR ''0'' r) else r)"

definition precision :: "string \<Rightarrow> nat" where
  "precision r =
     (let s = step_size_str r in
      if CHR ''.'' \<in> set s then length (last_field s) else 0)"

text \<open>
  \<^verbatim>\<open>quantize\<close> with \<^verbatim>\<open>ROUND_DOWN\<close> to \<open>p\<close> decimals: the digits beyond are dropped
  (rounding towards zero).
\<close>

definition quantize_down :: "nat \<Rightarrow> real \<Rightarrow> real" where
  "quantize_down p q =
     (if 0 \<le> q then of_int \<lfloor>q * 10 ^ p\<rfloor> / 10 ^ p else of_int \<lceil>q * 10 ^ p\<rceil> / 10 ^ p)"

definition round_quantity :: "string \<Rightarrow> real \<Rightarrow> real" where
  "round_quantity r quantity = quantize_down (precision r) quantity"

datatype api_error = BinanceAPIException | BinanceOrderException | OtherException

text \<open>
  The exchange's answer to \<^verbatim>\<open>create_order\<close>: the order id and the prices of its fills;
  a price is \<open>None\<close> when the entry cannot be read as a number, and an absent
  \<^verbatim>\<open>fills\<close> key reads like an empty list.
\<close>

record order_response =
  order_id :: nat
  fills :: "real option list"

record trader =
  step_size_repr :: string
  min_qty :: real
  position :: real
  trader_entry_price :: real

text \<open>\<^verbatim>\<open>get_current_price\<close> answers 0 when the request fails.\<close>

definition get_current_price :: "api_error + real \<Rightarrow> real" where
  "get_current_price ticker = (case ticker of Inl e \<Rightarrow> 0 | Inr p \<Rightarrow> p)"

text \<open>
  \<^verbatim>\<open>buy_market\<close> and \<^verbatim>\<open>sell_market\<close>. The outcome of \<^verbatim>\<open>client.create_order\<close> (an
  exception or the answer) and of the ticker request are inputs. The result is the
  returned value (\<open>None\<close> for Python's \<^verbatim>\<open>None\<close>), the trader after the call, and the
  quantities submitted to the exchange.
\<close>

definition buy_market ::
  "trader \<Rightarrow> real \<Rightarrow> api_error + order_response \<Rightarrow> api_error + real
     \<Rightarrow> order_response option \<times> trader \<times> real list" where
  "buy_market t quantity created ticker =
     (let q = round_quantity (step_size_repr t) quantity in
      if q < min_qty t then (None, t, [])
      else
        case created of
          Inl e \<Rightarrow> (None, t, [q])
        | Inr ord \<Rightarrow>
            (let t1 = t\<lparr>position := position t + q\<rparr> in
             case fills ord of
               [] \<Rightarrow> (Some ord, t1\<lparr>trader_entry_price := get_current_price ticker\<rparr>, [q])
             | Some p # rest \<Rightarrow> (Some ord, t1\<lparr>trader_entry_price := p\<rparr>, [q])
             | None # rest \<Rightarrow> (None, t1, [q])))"

definition sell_market ::
  "trader \<Rightarrow> real \<Rightarrow> api_error + order_response
     \<Rightarrow> order_response option \<times> trader \<times> real list" where
  "sell_market t quantity created =
     (let q = round_quantity (step_size_repr t) quantity in
      if q < min_qty t then (None, t, [])
      else
        case created of
          Inl e \<Rightarrow> (None, t, [q])
        | Inr ord \<Rightarrow>
            (let t1 = t\<lparr>position := position t - q\<rparr> in
             if position t1 \<le> 0
             then (Some ord, t1\<lparr>position := 0, trader_entry_price := 0\<rparr>, [q])
             else (Some ord, t1, [q])))"

section \<open>Observations and example states\<close>

text \<open>The indicator variables that \<^verbatim>\<open>calculate_indicators\<close> writes.\<close>

definition indicators_of ::
  "strategy \<Rightarrow> (real \<times> real \<times> real \<times> real \<times> int) \<times> (real \<times> real \<times> real \<times> real \<times> real \<times> real \<times> bool) \<times> real \<times> real" where
  "indicators_of s =
     ((fast_ma0 s, fast_ma1 s, slow_ma0 s, slow_ma1 s, ma_trend s),
      (rsi_value s, macd_value s, k_value s, d_value s, last_k s, last_d s, stoch_cross_over s),
      atr_value s, adx_value s)"

text \<open>
  A long and a short position entered at 50000 with an ATR of 500 (the first stop of the
  long one is the spec's 48750), on an initialised array manager, and flat bars and
  readings to run them on.
\<close>

definition long_example :: strategy where
  "long_example = init_strategy\<lparr>
     pos := 0.01, entry_price := 50000, intra_trade_high := 50000,
     trailing_stop_price := 48750, atr_value := 500, rsi_value := 50,
     am := \<lparr>am_count = 200, am_size = 200, inited = True\<rparr>\<rparr>"

definition short_example :: strategy where
  "short_example = init_strategy\<lparr>
     pos := - 0.01, entry_price := 50000, intra_trade_low := 50000,
     trailing_stop_price := 51250, atr_value := 500, rsi_value := 50,
     am := \<lparr>am_count = 200, am_size = 200, inited = True\<rparr>\<rparr>"

definition flat_bar :: "real \<Rightarrow> bar_data" where
  "flat_bar c = \<lparr>open_price = c, high_price = c, low_price = c, close_price = c, volume = 100\<rparr>"

definition calm_readings :: "real \<Rightarrow> readings" where
  "calm_readings c = \<lparr>rd_fast_ma = c, rd_slow_ma = c, rd_rsi = 50, rd_macd_hist = 0,
     rd_k = 50, rd_d = 50, rd_atr = 500, rd_adx = 10, rd_volume_ma = 100\<rparr>"

text \<open>Readings on which the entry logic, when it runs, opens a long position.\<close>

definition eager_readings :: readings where
  "eager_readings = \<lparr>rd_fast_ma = 51000, rd_slow_ma = 50000, rd_rsi = 20, rd_macd_hist = 1,
     rd_k = 50, rd_d = 50, rd_atr = 500, rd_adx = 30, rd_volume_ma = 10\<rparr>"

definition example_trader :: trader where
  "example_trader = \<lparr>step_size_repr = ''1e-05'', min_qty = 0.0001, position = 0,
     trader_entry_price = 0\<rparr>"

section \<open>Auxiliary facts\<close>

lemmas order_defs = write_log_def send_order_def buy_def sell_def short_def cover_def
  controlled_buy_def controlled_sell_def controlled_short_def controlled_cover_def

lemma controlled_sell_eq:
  "controlled_sell v s =
     s\<lparr>orders := orders s @ [Order SHORT CLOSE
          (if last_tick s = None then last_price s
           else bid_price_1 (the (last_tick s)) * (1 - slippage_tolerance_pct s)) v],
       logs := logs s @ [if last_tick s = None then LogMarketSell else LogLimitSell]\<rparr>"
  by (cases "last_tick s") (simp_all add: order_defs)

lemma controlled_cover_eq:
  "controlled_cover v s =
     s\<lparr>orders := orders s @ [Order LONG CLOSE
          (if last_tick s = None then last_price s
           else ask_price_1 (the (last_tick s)) * (1 + slippage_tolerance_pct s)) v],
       logs := logs s @ [if last_tick s = None then LogMarketCover else LogLimitCover]\<rparr>"
  by (cases "last_tick s") (simp_all add: order_defs)

text \<open>The two shapes of the management functions: the stop is moved, or it is kept.\<close>

lemma manage_long_position_update:
  assumes "close_price bar > entry_price s * (1 + trailing_stop_activation_pct s)"
    and "intra_trade_high s - atr_value s * atr_multiplier s > trailing_stop_price s"
  shows "manage_long_position s bar =
     (let s1 = s\<lparr>trailing_stop_price := intra_trade_high s - atr_value s * atr_multiplier s,
                 logs := logs s @ [LogLongStopUpdate]\<rparr> in
      if close_price bar \<le> trailing_stop_price s1 then
          (True, write_log LogLongStopLoss (controlled_sell \<bar>pos s1\<bar> s1))
        else if rsi_value s1 \<ge> rsi_sell_level s1 then
          (True, write_log LogLongTakeProfit (controlled_sell \<bar>pos s1\<bar> s1))
        else if signal_count s1 \<ge> signal_num s1 \<and> ma_trend s1 = - 1 then
          (True, write_log LogLongReversal (controlled_sell \<bar>pos s1\<bar> s1))
        else (False, s1))"
  using assms unfolding manage_long_position_def by (simp add: write_log_def Let_def)

lemma manage_long_position_keep:
  assumes "\<not> (close_price bar > entry_price s * (1 + trailing_stop_activation_pct s)
    \<and> intra_trade_high s - atr_value s * atr_multiplier s > trailing_stop_price s)"
  shows "manage_long_position s bar =
     (if close_price bar \<le> trailing_stop_price s then
          (True, write_log LogLongStopLoss (controlled_sell \<bar>pos s\<bar> s))
        else if rsi_value s \<ge> rsi_sell_level s then
          (True, write_log LogLongTakeProfit (controlled_sell \<bar>pos s\<bar> s))
        else if signal_count s \<ge> signal_num s \<and> ma_trend s = - 1 then
          (True, write_log LogLongReversal (controlled_sell \<bar>pos s\<bar> s))
        else (False, s))"
proof (cases "close_price bar > entry_price s * (1 + trailing_stop_activation_pct s)")
  case True
  with assms have "\<not> intra_trade_high s - atr_value s * atr_multiplier s > trailing_stop_price s"
    by auto
  with True show ?thesis
    unfolding manage_long_position_def by (simp add: Let_def)
next
  case False
  then show ?thesis
    unfolding manage_long_position_def by (simp add: Let_def)
qed

lemma manage_short_position_update:
  assumes "close_price bar < entry_price s * (1 - trailing_stop_activation_pct s)"
    and "trailing_stop_price s = 0
         \<or> intra_trade_low s + atr_value s * atr_multiplier s < trailing_stop_price s"
  shows "manage_short_position s bar =
     (let s1 = s\<lparr>trailing_stop_price := intra_trade_low s + atr_value s * atr_multiplier s,
                 logs := logs s @ [LogShortStopUpdate]\<rparr> in
      if close_price bar \<ge> trailing_stop_price s1 then
          (True, write_log LogShortStopLoss (controlled_cover \<bar>pos s1\<bar> s1))
        else if rsi_value s1 \<le> rsi_buy_level s1 then
          (True, write_log LogShortTakeProfit (controlled_cover \<bar>pos s1\<bar> s1))
        else if signal_count s1 \<ge> signal_num s1 \<and> ma_trend s1 = 1 then
          (True, write_log LogShortReversal (controlled_cover \<bar>pos s1\<bar> s1))
        else (False, s1))"
  using assms unfolding manage_short_position_def by (simp add: write_log_def Let_def)

lemma manage_short_position_keep:
  assumes "\<not> (close_price bar < entry_price s * (1 - trailing_stop_activation_pct s)
    \<and> (trailing_stop_price s = 0
         \<or> intra_trade_low s + atr_value s * atr_multiplier s < trailing_stop_price s))"
  shows "manage_short_position s bar =
     (if close_price bar \<ge> trailing_stop_price s then
          (True, write_log LogShortStopLoss (controlled_cover \<bar>pos s\<bar> s))
        else if rsi_value s \<le> rsi_buy_level s then
          (True, write_log LogShortTakeProfit (controlled_cover \<bar>pos s\<bar> s))
        else if signal_count s \<ge> signal_num s \<and> ma_trend s = 1 then
          (True, write_log LogShortReversal (controlled_cover \<bar>pos s\<bar> s))
        else (False, s))"
proof (cases "close_price bar < entry_price s * (1 - trailing_stop_activation_pct s)")
  case True
  with assms have "trailing_stop_price s \<noteq> 0"
    and "\<not> intra_trade_low s + atr_value s * atr_multiplier s < trailing_stop_price s"
    by auto
  with True show ?thesis
    unfolding manage_short_position_def by (simp add: Let_def)
next
  case False
  then show ?thesis
    unfolding manage_short_position_def by (simp add: Let_def)
qed

text \<open>The stop that each management function leaves.\<close>

lemma manage_long_position_stop:
  "trailing_stop_price (snd (manage_long_position s bar)) =
     (if close_price bar > entry_price s * (1 + trailing_stop_activation_pct s)
         \<and> intra_trade_high s - atr_value s * atr_multiplier s > trailing_stop_price s
      then intra_trade_high s - atr_value s * atr_multiplier s
      else trailing_stop_price s)"
proof (cases "close_price bar > entry_price s * (1 + trailing_stop_activation_pct s)
    \<and> intra_trade_high s - atr_value s * atr_multiplier s > trailing_stop_price s")
  case True
  note upd = manage_long_position_update [OF conjunct1 [OF True] conjunct2 [OF True]]
  show ?thesis
    by (simp add: upd if_P [OF True] controlled_sell_eq write_log_def Let_def)
next
  case False
  note keep = manage_long_position_keep [OF False]
  show ?thesis
    by (simp add: keep if_not_P [OF False] controlled_sell_eq write_log_def)
qed

lemma manage_short_position_stop:
  "trailing_stop_price (snd (manage_short_position s bar)) =
     (if close_price bar < entry_price s * (1 - trailing_stop_activation_pct s)
         \<and> (trailing_stop_price s = 0
              \<or> intra_trade_low s + atr_value s * atr_multiplier s < trailing_stop_price s)
      then intra_trade_low s + atr_value s * atr_multiplier s
      else trailing_stop_price s)"
proof (cases "close_price bar < entry_price s * (1 - trailing_stop_activation_pct s)
    \<and> (trailing_stop_price s = 0
         \<or> intra_trade_low s + atr_value s * atr_multiplier s < trailing_stop_price s)")
  case True
  note upd = manage_short_position_update [OF conjunct1 [OF True] conjunct2 [OF True]]
  show ?thesis
    by (simp add: upd if_P [OF True] controlled_cover_eq write_log_def Let_def)
next
  case False
  note keep = manage_short_position_keep [OF False]
  show ?thesis
    by (simp add: keep if_not_P [OF False] controlled_cover_eq write_log_def)
qed

text \<open>The exit messages and the orders of one call.\<close>

lemma manage_long_position_exit:
  "filter is_exit_msg (new_logs s (snd (manage_long_position s bar))) =
     (if close_price bar \<le> trailing_stop_price (snd (manage_long_position s bar))
      then [LogLongStopLoss]
      else if rsi_value s \<ge> rsi_sell_level s then [LogLongTakeProfit]
      else if signal_count s \<ge> signal_num s \<and> ma_trend s = - 1 then [LogLongReversal]
      else [])"
proof (cases "close_price bar > entry_price s * (1 + trailing_stop_activation_pct s)
    \<and> intra_trade_high s - atr_value s * atr_multiplier s > trailing_stop_price s")
  case True
  note upd = manage_long_position_update [OF conjunct1 [OF True] conjunct2 [OF True]]
  show ?thesis
    by (simp add: upd if_P [OF True] controlled_sell_eq write_log_def new_logs_def Let_def)
next
  case False
  note keep = manage_long_position_keep [OF False]
  show ?thesis
    by (simp add: keep if_not_P [OF False] controlled_sell_eq write_log_def new_logs_def)
qed

lemma manage_short_position_exit:
  "filter is_exit_msg (new_logs s (snd (manage_short_position s bar))) =
     (if close_price bar \<ge> trailing_stop_price (snd (manage_short_position s bar))
      then [LogShortStopLoss]
      else if rsi_value s \<le> rsi_buy_level s then [LogShortTakeProfit]
      else if signal_count s \<ge> signal_num s \<and> ma_trend s = 1 then [LogShortReversal]
      else [])"
proof (cases "close_price bar < entry_price s * (1 - trailing_stop_activation_pct s)
    \<and> (trailing_stop_price s = 0
         \<or> intra_trade_low s + atr_value s * atr_multiplier s < trailing_stop_price s)")
  case True
  note upd = manage_short_position_update [OF conjunct1 [OF True] conjunct2 [OF True]]
  show ?thesis
    by (simp add: upd if_P [OF True] controlled_cover_eq write_log_def new_logs_def Let_def)
next
  case False
  note keep = manage_short_position_keep [OF False]
  show ?thesis
    by (simp add: keep if_not_P [OF False] controlled_cover_eq write_log_def new_logs_def)
qed

lemma manage_long_position_orders:
  "new_orders s (snd (manage_long_position s bar)) =
     (if fst (manage_long_position s bar)
      then [Order SHORT CLOSE
              (if last_tick s = None then last_price s
               else bid_price_1 (the (last_tick s)) * (1 - slippage_tolerance_pct s)) \<bar>pos s\<bar>]
      else [])"
proof (cases "close_price bar > entry_price s * (1 + trailing_stop_activation_pct s)
    \<and> intra_trade_high s - atr_value s * atr_multiplier s > trailing_stop_price s")
  case True
  note upd = manage_long_position_update [OF conjunct1 [OF True] conjunct2 [OF True]]
  show ?thesis
    by (simp add: upd if_P [OF True] controlled_sell_eq write_log_def new_orders_def Let_def)
next
  case False
  note keep = manage_long_position_keep [OF False]
  show ?thesis
    by (simp add: keep if_not_P [OF False] controlled_sell_eq write_log_def new_orders_def)
qed

lemma manage_short_position_orders:
  "new_orders s (snd (manage_short_position s bar)) =
     (if fst (manage_short_position s bar)
      then [Order LONG CLOSE
              (if last_tick s = None then last_price s
               else ask_price_1 (the (last_tick s)) * (1 + slippage_tolerance_pct s)) \<bar>pos s\<bar>]
      else [])"
proof (cases "close_price bar < entry_price s * (1 - trailing_stop_activation_pct s)
    \<and> (trailing_stop_price s = 0
         \<or> intra_trade_low s + atr_value s * atr_multiplier s < trailing_stop_price s)")
  case True
  note upd = manage_short_position_update [OF conjunct1 [OF True] conjunct2 [OF True]]
  show ?thesis
    by (simp add: upd if_P [OF True] controlled_cover_eq write_log_def new_orders_def Let_def)
next
  case False
  note keep = manage_short_position_keep [OF False]
  show ?thesis
    by (simp add: keep if_not_P [OF False] controlled_cover_eq write_log_def new_orders_def)
qed

lemma manage_long_position_flag:
  "fst (manage_long_position s bar) =
     (filter is_exit_msg (new_logs s (snd (manage_long_position s bar))) \<noteq> [])"
proof (cases "close_price bar > entry_price s * (1 + trailing_stop_activation_pct s)
    \<and> intra_trade_high s - atr_value s * atr_multiplier s > trailing_stop_price s")
  case True
  note upd = manage_long_position_update [OF conjunct1 [OF True] conjunct2 [OF True]]
  show ?thesis
    by (simp add: upd if_P [OF True] controlled_sell_eq write_log_def new_logs_def Let_def)
next
  case False
  note keep = manage_long_position_keep [OF False]
  show ?thesis
    by (simp add: keep if_not_P [OF False] controlled_sell_eq write_log_def new_logs_def)
qed

lemma manage_short_position_flag:
  "fst (manage_short_position s bar) =
     (filter is_exit_msg (new_logs s (snd (manage_short_position s bar))) \<noteq> [])"
proof (cases "close_price bar < entry_price s * (1 - trailing_stop_activation_pct s)
    \<and> (trailing_stop_price s = 0
         \<or> intra_trade_low s + atr_value s * atr_multiplier s < trailing_stop_price s)")
  case True
  note upd = manage_short_position_update [OF conjunct1 [OF True] conjunct2 [OF True]]
  show ?thesis
    by (simp add: upd if_P [OF True] controlled_cover_eq write_log_def new_logs_def Let_def)
next
  case False
  note keep = manage_short_position_keep [OF False]
  show ?thesis
    by (simp add: keep if_not_P [OF False] controlled_cover_eq write_log_def new_logs_def)
qed

text \<open>Management issues no entry message and touches none of the entry variables.\<close>

lemma manage_long_position_no_entry:
  "filter is_entry_msg (new_logs s (snd (manage_long_position s bar))) = []
   \<and> entry_price (snd (manage_long_position s bar)) = entry_price s
   \<and> intra_trade_high (snd (manage_long_position s bar)) = intra_trade_high s
   \<and> intra_trade_low (snd (manage_long_position s bar)) = intra_trade_low s
   \<and> pos (snd (manage_long_position s bar)) = pos s"
proof (cases "close_price bar > entry_price s * (1 + trailing_stop_activation_pct s)
    \<and> intra_trade_high s - atr_value s * atr_multiplier s > trailing_stop_price s")
  case True
  note upd = manage_long_position_update [OF conjunct1 [OF True] conjunct2 [OF True]]
  show ?thesis
    by (simp add: upd if_P [OF True] controlled_sell_eq write_log_def new_logs_def Let_def)
next
  case False
  note keep = manage_long_position_keep [OF False]
  show ?thesis
    by (simp add: keep if_not_P [OF False] controlled_sell_eq write_log_def new_logs_def)
qed

lemma manage_short_position_no_entry:
  "filter is_entry_msg (new_logs s (snd (manage_short_position s bar))) = []
   \<and> entry_price (snd (manage_short_position s bar)) = entry_price s
   \<and> intra_trade_high (snd (manage_short_position s bar)) = intra_trade_high s
   \<and> intra_trade_low (snd (manage_short_position s bar)) = intra_trade_low s
   \<and> pos (snd (manage_short_position s bar)) = pos s"
proof (cases "close_price bar < entry_price s * (1 - trailing_stop_activation_pct s)
    \<and> (trailing_stop_price s = 0
         \<or> intra_trade_low s + atr_value s * atr_multiplier s < trailing_stop_price s)")
  case True
  note upd = manage_short_position_update [OF conjunct1 [OF True] conjunct2 [OF True]]
  show ?thesis
    by (simp add: upd if_P [OF True] controlled_cover_eq write_log_def new_logs_def Let_def)
next
  case False
  note keep = manage_short_position_keep [OF False]
  show ?thesis
    by (simp add: keep if_not_P [OF False] controlled_cover_eq write_log_def new_logs_def)
qed

section \<open>Exit precedence\<close>

text \<open>
  Claim C2. On every bar of a held position the exits are tried in the order stop-loss,
  RSI take-profit, signal reversal, and the first that matches is the one taken: the exit
  message of the call is that of the first matching condition, where the stop compared
  with the close is the one in force after the ratchet update. A bar that breaches the
  stop and also meets the RSI level gives the stop-loss exit. Each call issues as many
  orders as exit messages, hence at most one.
\<close>

theorem exit_reason_precedence:
  "filter is_exit_msg (new_logs s (snd (manage_long_position s bar))) =
     (if close_price bar \<le> trailing_stop_price (snd (manage_long_position s bar))
      then [LogLongStopLoss]
      else if rsi_value s \<ge> rsi_sell_level s then [LogLongTakeProfit]
      else if signal_count s \<ge> signal_num s \<and> ma_trend s = - 1 then [LogLongReversal]
      else [])
   \<and> filter is_exit_msg (new_logs s (snd (manage_short_position s bar))) =
     (if close_price bar \<ge> trailing_stop_price (snd (manage_short_position s bar))
      then [LogShortStopLoss]
      else if rsi_value s \<le> rsi_buy_level s then [LogShortTakeProfit]
      else if signal_count s \<ge> signal_num s \<and> ma_trend s = 1 then [LogShortReversal]
      else [])
   \<and> (close_price bar \<le> trailing_stop_price (snd (manage_long_position s bar))
        \<and> rsi_value s \<ge> rsi_sell_level s
      \<longrightarrow> filter is_exit_msg (new_logs s (snd (manage_long_position s bar)))
            = [LogLongStopLoss])
   \<and> (close_price bar \<ge> trailing_stop_price (snd (manage_short_position s bar))
        \<and> rsi_value s \<le> rsi_buy_level s
      \<longrightarrow> filter is_exit_msg (new_logs s (snd (manage_short_position s bar)))
            = [LogShortStopLoss])
   \<and> length (new_orders s (snd (manage_long_position s bar)))
       = length (filter is_exit_msg (new_logs s (snd (manage_long_position s bar))))
   \<and> length (new_orders s (snd (manage_short_position s bar)))
       = length (filter is_exit_msg (new_logs s (snd (manage_short_position s bar))))
   \<and> length (new_orders s (snd (manage_long_position s bar))) \<le> 1
   \<and> length (new_orders s (snd (manage_short_position s bar))) \<le> 1"
proof -
  note le = manage_long_position_exit [of s bar]
  note se = manage_short_position_exit [of s bar]
  have lo: "length (new_orders s (snd (manage_long_position s bar)))
      = length (filter is_exit_msg (new_logs s (snd (manage_long_position s bar))))"
    unfolding manage_long_position_orders manage_long_position_flag
    by (simp add: le)
  have so: "length (new_orders s (snd (manage_short_position s bar)))
      = length (filter is_exit_msg (new_logs s (snd (manage_short_position s bar))))"
    unfolding manage_short_position_orders manage_short_position_flag
    by (simp add: se)
  have l1: "length (filter is_exit_msg (new_logs s (snd (manage_long_position s bar)))) \<le> 1"
    unfolding le by simp
  have s1: "length (filter is_exit_msg (new_logs s (snd (manage_short_position s bar)))) \<le> 1"
    unfolding se by simp
  have lp: "close_price bar \<le> trailing_stop_price (snd (manage_long_position s bar))
        \<and> rsi_value s \<ge> rsi_sell_level s
      \<longrightarrow> filter is_exit_msg (new_logs s (snd (manage_long_position s bar)))
            = [LogLongStopLoss]"
    unfolding le by simp
  have sp: "close_price bar \<ge> trailing_stop_price (snd (manage_short_position s bar))
        \<and> rsi_value s \<le> rsi_buy_level s
      \<longrightarrow> filter is_exit_msg (new_logs s (snd (manage_short_position s bar)))
            = [LogShortStopLoss]"
    unfolding se by simp
  from l1 s1 show ?thesis
    unfolding lo so using le se lp sp by blast
qed

theorem exit_reason_precedence_witness:
  "close_price (flat_bar 48000)
     \<le> trailing_stop_price
          (snd (manage_long_position (long_example\<lparr>rsi_value := 75\<rparr>) (flat_bar 48000)))
   \<and> rsi_value (long_example\<lparr>rsi_value := 75\<rparr>) \<ge> rsi_sell_level (long_example\<lparr>rsi_value := 75\<rparr>)
   \<and> filter is_exit_msg (new_logs (long_example\<lparr>rsi_value := 75\<rparr>)
        (snd (manage_long_position (long_example\<lparr>rsi_value := 75\<rparr>) (flat_bar 48000))))
      = [LogLongStopLoss]
   \<and> close_price (flat_bar 52000)
     \<ge> trailing_stop_price
          (snd (manage_short_position (short_example\<lparr>rsi_value := 25\<rparr>) (flat_bar 52000)))
   \<and> rsi_value (short_example\<lparr>rsi_value := 25\<rparr>) \<le> rsi_buy_level (short_example\<lparr>rsi_value := 25\<rparr>)
   \<and> filter is_exit_msg (new_logs (short_example\<lparr>rsi_value := 25\<rparr>)
        (snd (manage_short_position (short_example\<lparr>rsi_value := 25\<rparr>) (flat_bar 52000))))
      = [LogShortStopLoss]"
  using exit_reason_precedence [of "long_example\<lparr>rsi_value := 75\<rparr>" "flat_bar 48000"]
    exit_reason_precedence [of "short_example\<lparr>rsi_value := 25\<rparr>" "flat_bar 52000"]
  by (simp add: manage_long_position_stop manage_short_position_stop
      long_example_def short_example_def init_strategy_def flat_bar_def)

section \<open>Fill postconditions\<close>

text \<open>
  Claim C4, as amended. An opening fill sets \<open>entry_price\<close> to the fill price. A long
  entry sets \<open>intra_trade_high\<close> to the fill price and the stop to the fill price minus
  ATR times the multiplier, and leaves \<open>intra_trade_low\<close> as it was; a short entry sets
  \<open>intra_trade_low\<close> to the fill price and the stop to the fill price plus ATR times the
  multiplier, and leaves \<open>intra_trade_high\<close> as it was.
\<close>

theorem entry_fill_postcondition:
  "trade_offset trade = OPEN \<Longrightarrow>
     entry_price (on_trade s trade) = trade_price trade \<and>
     (if trade_direction trade = LONG
      then intra_trade_high (on_trade s trade) = trade_price trade \<and>
           intra_trade_low (on_trade s trade) = intra_trade_low s \<and>
           trailing_stop_price (on_trade s trade)
             = trade_price trade - atr_value s * atr_multiplier s
      else intra_trade_low (on_trade s trade) = trade_price trade \<and>
           intra_trade_high (on_trade s trade) = intra_trade_high s \<and>
           trailing_stop_price (on_trade s trade)
             = trade_price trade + atr_value s * atr_multiplier s)"
  by (simp add: on_trade_def Let_def write_log_def)

text \<open>The spec's example: entry at 50000 with ATR 500 and multiplier 2.5.\<close>

theorem entry_fill_postcondition_witness:
  "trade_offset \<lparr>trade_direction = LONG, trade_offset = OPEN, trade_price = 50000,
       trade_volume = 0.01\<rparr> = OPEN
   \<and> entry_price (on_trade (init_strategy\<lparr>atr_value := 500\<rparr>)
        \<lparr>trade_direction = LONG, trade_offset = OPEN, trade_price = 50000,
         trade_volume = 0.01\<rparr>) = 50000
   \<and> intra_trade_high (on_trade (init_strategy\<lparr>atr_value := 500\<rparr>)
        \<lparr>trade_direction = LONG, trade_offset = OPEN, trade_price = 50000,
         trade_volume = 0.01\<rparr>) = 50000
   \<and> trailing_stop_price (on_trade (init_strategy\<lparr>atr_value := 500\<rparr>)
        \<lparr>trade_direction = LONG, trade_offset = OPEN, trade_price = 50000,
         trade_volume = 0.01\<rparr>) = 48750"
  using entry_fill_postcondition
    [of "\<lparr>trade_direction = LONG, trade_offset = OPEN, trade_price = 50000,
          trade_volume = 0.01\<rparr>" "init_strategy\<lparr>atr_value := 500\<rparr>"]
  by (simp add: init_strategy_def)

text \<open>
  The claim as stated fails: after a long entry at 50000 from the initial state,
  \<open>intra_trade_low\<close> is still 0, not the fill price.
\<close>

theorem entry_fill_low_counterexample:
  "intra_trade_low (on_trade (init_strategy\<lparr>atr_value := 500\<rparr>)
        \<lparr>trade_direction = LONG, trade_offset = OPEN, trade_price = 50000,
         trade_volume = 0.01\<rparr>) = 0
   \<and> intra_trade_low (on_trade (init_strategy\<lparr>atr_value := 500\<rparr>)
        \<lparr>trade_direction = LONG, trade_offset = OPEN, trade_price = 50000,
         trade_volume = 0.01\<rparr>) \<noteq> 50000"
  by (simp add: on_trade_def Let_def write_log_def init_strategy_def)

text \<open>
  Claim C5. After a closing fill (any fill whose offset is not the opening one),
  \<open>entry_price\<close>, \<open>intra_trade_high\<close>, \<open>intra_trade_low\<close> and
  \<open>trailing_stop_price\<close> are all zero.
\<close>

theorem flatten_resets_state:
  "trade_offset trade \<noteq> OPEN \<Longrightarrow>
     entry_price (on_trade s trade) = 0 \<and> intra_trade_high (on_trade s trade) = 0 \<and>
     intra_trade_low (on_trade s trade) = 0 \<and> trailing_stop_price (on_trade s trade) = 0"
  by (simp add: on_trade_def Let_def write_log_def)

theorem flatten_resets_state_witness:
  "trade_offset \<lparr>trade_direction = SHORT, trade_offset = CLOSE, trade_price = 51000,
       trade_volume = 0.01\<rparr> \<noteq> OPEN
   \<and> entry_price long_example = 50000 \<and> trailing_stop_price long_example = 48750
   \<and> entry_price (on_trade long_example
        \<lparr>trade_direction = SHORT, trade_offset = CLOSE, trade_price = 51000,
         trade_volume = 0.01\<rparr>) = 0
   \<and> intra_trade_high (on_trade long_example
        \<lparr>trade_direction = SHORT, trade_offset = CLOSE, trade_price = 51000,
         trade_volume = 0.01\<rparr>) = 0
   \<and> intra_trade_low (on_trade long_example
        \<lparr>trade_direction = SHORT, trade_offset = CLOSE, trade_price = 51000,
         trade_volume = 0.01\<rparr>) = 0
   \<and> trailing_stop_price (on_trade long_example
        \<lparr>trade_direction = SHORT, trade_offset = CLOSE, trade_price = 51000,
         trade_volume = 0.01\<rparr>) = 0"
  using flatten_resets_state
    [of "\<lparr>trade_direction = SHORT, trade_offset = CLOSE, trade_price = 51000,
          trade_volume = 0.01\<rparr>" long_example]
  by (simp add: long_example_def init_strategy_def)

section \<open>The zero stop of a short position\<close>

text \<open>
  Claim C10. When a short position is managed with \<open>trailing_stop_price = 0\<close> and the
  activation condition does not hold, the stop-loss branch fires for every close that is
  not negative and one cover order for the whole position is issued. The update guard of
  the short side treats a zero stop specially (the candidate is adopted whatever its
  value); the long side has no such case: there a non-positive candidate leaves the zero
  stop in place, and a zero stop never triggers the stop branch at a positive close.
\<close>

theorem short_zero_stop_fires:
  "(trailing_stop_price s = 0
      \<and> \<not> close_price bar < entry_price s * (1 - trailing_stop_activation_pct s)
      \<and> 0 \<le> close_price bar
    \<longrightarrow> fst (manage_short_position s bar)
        \<and> filter is_exit_msg (new_logs s (snd (manage_short_position s bar)))
            = [LogShortStopLoss]
        \<and> new_orders s (snd (manage_short_position s bar))
            = [Order LONG CLOSE
                 (if last_tick s = None then last_price s
                  else ask_price_1 (the (last_tick s)) * (1 + slippage_tolerance_pct s))
                 \<bar>pos s\<bar>])
   \<and> (trailing_stop_price s = 0
      \<and> close_price bar < entry_price s * (1 - trailing_stop_activation_pct s)
    \<longrightarrow> trailing_stop_price (snd (manage_short_position s bar))
          = intra_trade_low s + atr_value s * atr_multiplier s)
   \<and> (trailing_stop_price s = 0
      \<and> intra_trade_high s - atr_value s * atr_multiplier s \<le> 0
    \<longrightarrow> trailing_stop_price (snd (manage_long_position s bar)) = 0)
   \<and> (trailing_stop_price (snd (manage_long_position s bar)) = 0 \<and> 0 < close_price bar
    \<longrightarrow> filter is_exit_msg (new_logs s (snd (manage_long_position s bar)))
          \<noteq> [LogLongStopLoss])"
proof (intro conjI impI)
  assume h: "trailing_stop_price s = 0
      \<and> \<not> close_price bar < entry_price s * (1 - trailing_stop_activation_pct s)
      \<and> 0 \<le> close_price bar"
  then have st: "trailing_stop_price (snd (manage_short_position s bar)) = 0"
    by (simp add: manage_short_position_stop)
  with h show ex: "filter is_exit_msg (new_logs s (snd (manage_short_position s bar)))
            = [LogShortStopLoss]"
    by (simp add: manage_short_position_exit)
  then show fl: "fst (manage_short_position s bar)"
    by (simp add: manage_short_position_flag)
  then show "new_orders s (snd (manage_short_position s bar))
            = [Order LONG CLOSE
                 (if last_tick s = None then last_price s
                  else ask_price_1 (the (last_tick s)) * (1 + slippage_tolerance_pct s))
                 \<bar>pos s\<bar>]"
    by (simp add: manage_short_position_orders)
next
  assume "trailing_stop_price s = 0
      \<and> close_price bar < entry_price s * (1 - trailing_stop_activation_pct s)"
  then show "trailing_stop_price (snd (manage_short_position s bar))
          = intra_trade_low s + atr_value s * atr_multiplier s"
    by (simp add: manage_short_position_stop)
next
  assume "trailing_stop_price s = 0
      \<and> intra_trade_high s - atr_value s * atr_multiplier s \<le> 0"
  then show "trailing_stop_price (snd (manage_long_position s bar)) = 0"
    by (simp add: manage_long_position_stop)
next
  assume "trailing_stop_price (snd (manage_long_position s bar)) = 0 \<and> 0 < close_price bar"
  then show "filter is_exit_msg (new_logs s (snd (manage_long_position s bar)))
          \<noteq> [LogLongStopLoss]"
    by (simp add: manage_long_position_exit)
qed

theorem short_zero_stop_fires_witness:
  "trailing_stop_price (short_example\<lparr>entry_price := 0, trailing_stop_price := 0\<rparr>) = 0
   \<and> \<not> close_price (flat_bar 50000)
        < entry_price (short_example\<lparr>entry_price := 0, trailing_stop_price := 0\<rparr>)
          * (1 - trailing_stop_activation_pct
                   (short_example\<lparr>entry_price := 0, trailing_stop_price := 0\<rparr>))
   \<and> 0 \<le> close_price (flat_bar 50000)
   \<and> fst (manage_short_position
            (short_example\<lparr>entry_price := 0, trailing_stop_price := 0\<rparr>) (flat_bar 50000))
   \<and> filter is_exit_msg
        (new_logs (short_example\<lparr>entry_price := 0, trailing_stop_price := 0\<rparr>)
           (snd (manage_short_position
                   (short_example\<lparr>entry_price := 0, trailing_stop_price := 0\<rparr>)
                   (flat_bar 50000))))
      = [LogShortStopLoss]
   \<and> trailing_stop_price (short_example\<lparr>trailing_stop_price := 0\<rparr>) = 0
   \<and> close_price (flat_bar 49000)
        < entry_price (short_example\<lparr>trailing_stop_price := 0\<rparr>)
          * (1 - trailing_stop_activation_pct (short_example\<lparr>trailing_stop_price := 0\<rparr>))
   \<and> trailing_stop_price
        (snd (manage_short_position (short_example\<lparr>trailing_stop_price := 0\<rparr>)
                (flat_bar 49000))) = 51250
   \<and> trailing_stop_price (long_example\<lparr>trailing_stop_price := 0, intra_trade_high := 1000\<rparr>) = 0
   \<and> intra_trade_high (long_example\<lparr>trailing_stop_price := 0, intra_trade_high := 1000\<rparr>)
        - atr_value (long_example\<lparr>trailing_stop_price := 0, intra_trade_high := 1000\<rparr>)
          * atr_multiplier (long_example\<lparr>trailing_stop_price := 0, intra_trade_high := 1000\<rparr>)
        \<le> 0
   \<and> trailing_stop_price
        (snd (manage_long_position
                (long_example\<lparr>trailing_stop_price := 0, intra_trade_high := 1000\<rparr>)
                (flat_bar 51000))) = 0
   \<and> 0 < close_price (flat_bar 51000)
   \<and> filter is_exit_msg
        (new_logs (long_example\<lparr>trailing_stop_price := 0, intra_trade_high := 1000\<rparr>)
           (snd (manage_long_position
                   (long_example\<lparr>trailing_stop_price := 0, intra_trade_high := 1000\<rparr>)
                   (flat_bar 51000))))
      \<noteq> [LogLongStopLoss]"
  using short_zero_stop_fires
      [of "short_example\<lparr>entry_price := 0, trailing_stop_price := 0\<rparr>" "flat_bar 50000"]
    short_zero_stop_fires [of "short_example\<lparr>trailing_stop_price := 0\<rparr>" "flat_bar 49000"]
    short_zero_stop_fires
      [of "long_example\<lparr>trailing_stop_price := 0, intra_trade_high := 1000\<rparr>" "flat_bar 51000"]
  by (simp add: long_example_def short_example_def init_strategy_def flat_bar_def)

section \<open>The entry logic and its priority\<close>

lemma controlled_buy_eq:
  "controlled_buy v s =
     s\<lparr>orders := orders s @ [Order LONG OPEN
          (if last_tick s = None then last_price s
           else ask_price_1 (the (last_tick s)) * (1 + slippage_tolerance_pct s)) v],
       logs := logs s @ [if last_tick s = None then LogMarketBuy else LogLimitBuy]\<rparr>"
  by (cases "last_tick s") (simp_all add: order_defs)

lemma controlled_short_eq:
  "controlled_short v s =
     s\<lparr>orders := orders s @ [Order SHORT OPEN
          (if last_tick s = None then last_price s
           else bid_price_1 (the (last_tick s)) * (1 - slippage_tolerance_pct s)) v],
       logs := logs s @ [if last_tick s = None then LogMarketShort else LogLimitShort]\<rparr>"
  by (cases "last_tick s") (simp_all add: order_defs)

lemma generate_signals_long:
  "inited (am s) \<Longrightarrow> 0 < pos s \<Longrightarrow> generate_signals s bar rd = snd (manage_long_position s bar)"
  by (simp add: generate_signals_def)

lemma generate_signals_short:
  "inited (am s) \<Longrightarrow> pos s < 0 \<Longrightarrow> generate_signals s bar rd = snd (manage_short_position s bar)"
  by (simp add: generate_signals_def)

lemma generate_signals_not_inited:
  "\<not> inited (am s) \<Longrightarrow> generate_signals s bar rd = s"
  by (simp add: generate_signals_def)

lemma generate_signals_flat_cases:
  assumes "pos s = 0"
  shows "generate_signals s bar rd = s
     \<or> generate_signals s bar rd = write_log LogPassedFilters s
     \<or> generate_signals s bar rd =
         (controlled_buy (fixed_size s)
            (write_log LogSignalDetail (write_log LogVolumeConfirmed
               (write_log LogLongDecision (write_log LogPassedFilters s)))))
          \<lparr>entry_price := close_price bar, intra_trade_high := high_price bar\<rparr>
     \<or> generate_signals s bar rd =
         (controlled_short (fixed_size s)
            (write_log LogSignalDetail (write_log LogVolumeConfirmed
               (write_log LogShortDecision (write_log LogPassedFilters s)))))
          \<lparr>entry_price := close_price bar, intra_trade_low := low_price bar\<rparr>"
  using assms unfolding generate_signals_def Let_def
  by (simp add: write_log_def)

lemma generate_signals_flat:
  assumes "pos s = 0"
  shows "filter is_exit_msg (new_logs s (generate_signals s bar rd)) = []
     \<and> filter (\<lambda>x. \<not> is_open_order x) (new_orders s (generate_signals s bar rd)) = []
     \<and> trailing_stop_price (generate_signals s bar rd) = trailing_stop_price s"
  using generate_signals_flat_cases [OF assms, of bar rd]
  by (elim disjE)
    (simp_all add: controlled_buy_eq controlled_short_eq write_log_def new_logs_def new_orders_def)

lemma generate_signals_held:
  assumes "pos s \<noteq> 0"
  shows "filter is_entry_msg (new_logs s (generate_signals s bar rd)) = []
     \<and> filter is_open_order (new_orders s (generate_signals s bar rd)) = []
     \<and> entry_price (generate_signals s bar rd) = entry_price s
     \<and> intra_trade_high (generate_signals s bar rd) = intra_trade_high s
     \<and> intra_trade_low (generate_signals s bar rd) = intra_trade_low s"
proof (cases "inited (am s)")
  case False
  then show ?thesis
    by (simp add: generate_signals_not_inited new_logs_def new_orders_def)
next
  case True
  show ?thesis
  proof (cases "0 < pos s")
    case True
    with \<open>inited (am s)\<close> show ?thesis
      by (simp add: generate_signals_long manage_long_position_no_entry
          manage_long_position_orders)
  next
    case False
    with assms have "pos s < 0" by simp
    with \<open>inited (am s)\<close> show ?thesis
      by (simp add: generate_signals_short manage_short_position_no_entry
          manage_short_position_orders)
  qed
qed

text \<open>
  Claim C3. On a bar with \<open>pos \<noteq> 0\<close>, \<^verbatim>\<open>generate_signals\<close> is the position
  management of the side held and nothing else: it writes no message of the entry logic,
  issues no opening order and leaves the entry variables alone. Conversely, on a flat bar
  no exit message is written, no closing order is issued and the stop is not touched, so
  the two never run on the same bar.
\<close>

theorem position_management_priority:
  "(pos s \<noteq> 0 \<longrightarrow>
      filter is_entry_msg (new_logs s (generate_signals s bar rd)) = []
      \<and> filter is_open_order (new_orders s (generate_signals s bar rd)) = []
      \<and> entry_price (generate_signals s bar rd) = entry_price s
      \<and> intra_trade_high (generate_signals s bar rd) = intra_trade_high s
      \<and> intra_trade_low (generate_signals s bar rd) = intra_trade_low s)
   \<and> (inited (am s) \<and> 0 < pos s \<longrightarrow>
        generate_signals s bar rd = snd (manage_long_position s bar))
   \<and> (inited (am s) \<and> pos s < 0 \<longrightarrow>
        generate_signals s bar rd = snd (manage_short_position s bar))
   \<and> (pos s = 0 \<longrightarrow>
        filter is_exit_msg (new_logs s (generate_signals s bar rd)) = []
        \<and> filter (\<lambda>x. \<not> is_open_order x) (new_orders s (generate_signals s bar rd)) = []
        \<and> trailing_stop_price (generate_signals s bar rd) = trailing_stop_price s)"
  using generate_signals_held [of s bar rd] generate_signals_flat [of s bar rd]
    generate_signals_long [of s bar rd] generate_signals_short [of s bar rd]
  by blast

theorem position_management_priority_witness:
  "pos long_example \<noteq> 0 \<and> inited (am long_example) \<and> 0 < pos long_example
   \<and> generate_signals long_example (flat_bar 50000) (calm_readings 50000)
       = snd (manage_long_position long_example (flat_bar 50000))
   \<and> filter is_entry_msg (new_logs long_example
        (generate_signals long_example (flat_bar 50000) (calm_readings 50000))) = []
   \<and> filter is_open_order (new_orders long_example
        (generate_signals long_example (flat_bar 50000) (calm_readings 50000))) = []
   \<and> inited (am short_example) \<and> pos short_example < 0
   \<and> generate_signals short_example (flat_bar 50000) (calm_readings 50000)
       = snd (manage_short_position short_example (flat_bar 50000))
   \<and> pos init_strategy = 0
   \<and> filter is_exit_msg (new_logs init_strategy
        (generate_signals init_strategy (flat_bar 50000) (calm_readings 50000))) = []
   \<and> trailing_stop_price (generate_signals init_strategy (flat_bar 50000) (calm_readings 50000))
       = trailing_stop_price init_strategy"
proof -
  have long: "pos long_example \<noteq> 0" "inited (am long_example)" "0 < pos long_example"
    by (simp_all add: long_example_def init_strategy_def)
  have short: "inited (am short_example)" "pos short_example < 0"
    by (simp_all add: short_example_def init_strategy_def)
  have flat: "pos init_strategy = 0"
    by (simp add: init_strategy_def)
  from long short flat
    position_management_priority [of long_example "flat_bar 50000" "calm_readings 50000"]
    position_management_priority [of short_example "flat_bar 50000" "calm_readings 50000"]
    position_management_priority [of init_strategy "flat_bar 50000" "calm_readings 50000"]
  show ?thesis by blast
qed

section \<open>The stochastic cross flag\<close>

text \<open>
  Claim C7, as amended. On an initialised array manager the flag is set on the bar on
  which %K crosses above %D (previous %K below previous %D, current %K above current %D),
  cleared on the bar on which %K crosses below %D, and on every other bar it keeps the
  value it had: once set it stays set on the following bars until a dead cross.
\<close>

theorem golden_cross_flag:
  "inited (am s) \<Longrightarrow>
     stoch_cross_over (calculate_indicators s rd) =
       (if k_value s < d_value s \<and> rd_k rd > rd_d rd then True
        else if k_value s > d_value s \<and> rd_k rd < rd_d rd then False
        else stoch_cross_over s)
     \<and> last_k (calculate_indicators s rd) = k_value s
     \<and> last_d (calculate_indicators s rd) = d_value s
     \<and> k_value (calculate_indicators s rd) = rd_k rd
     \<and> d_value (calculate_indicators s rd) = rd_d rd"
  by (simp add: calculate_indicators_def Let_def)

theorem golden_cross_flag_witness:
  "inited (am (long_example\<lparr>k_value := 40, d_value := 50\<rparr>))
   \<and> k_value (long_example\<lparr>k_value := 40, d_value := 50\<rparr>)
        < d_value (long_example\<lparr>k_value := 40, d_value := 50\<rparr>)
   \<and> rd_k ((calm_readings 50000)\<lparr>rd_k := 60, rd_d := 50\<rparr>)
        > rd_d ((calm_readings 50000)\<lparr>rd_k := 60, rd_d := 50\<rparr>)
   \<and> stoch_cross_over (calculate_indicators (long_example\<lparr>k_value := 40, d_value := 50\<rparr>)
        ((calm_readings 50000)\<lparr>rd_k := 60, rd_d := 50\<rparr>))
   \<and> last_k (calculate_indicators (long_example\<lparr>k_value := 40, d_value := 50\<rparr>)
        ((calm_readings 50000)\<lparr>rd_k := 60, rd_d := 50\<rparr>)) = 40
   \<and> \<not> stoch_cross_over (calculate_indicators
        (long_example\<lparr>k_value := 60, d_value := 50, stoch_cross_over := True\<rparr>)
        ((calm_readings 50000)\<lparr>rd_k := 45, rd_d := 50\<rparr>))"
  using golden_cross_flag [of "long_example\<lparr>k_value := 40, d_value := 50\<rparr>"
      "(calm_readings 50000)\<lparr>rd_k := 60, rd_d := 50\<rparr>"]
    golden_cross_flag [of "long_example\<lparr>k_value := 60, d_value := 50, stoch_cross_over := True\<rparr>"
      "(calm_readings 50000)\<lparr>rd_k := 45, rd_d := 50\<rparr>"]
  by (simp add: long_example_def init_strategy_def calm_readings_def)

text \<open>
  The claim as stated fails: after a golden cross on one bar (40/50 to 60/50), the next
  bar (70/55) has no cross, yet the flag is still set and the stochastic buy signal still
  counts.
\<close>

theorem golden_cross_latch_counterexample:
  "k_value (long_example\<lparr>k_value := 40, d_value := 50\<rparr>)
        < d_value (long_example\<lparr>k_value := 40, d_value := 50\<rparr>)
   \<and> rd_k ((calm_readings 50000)\<lparr>rd_k := 60, rd_d := 50\<rparr>)
        > rd_d ((calm_readings 50000)\<lparr>rd_k := 60, rd_d := 50\<rparr>)
   \<and> \<not> stoch_cross_over (long_example\<lparr>k_value := 40, d_value := 50\<rparr>)
   \<and> stoch_cross_over (calculate_indicators (long_example\<lparr>k_value := 40, d_value := 50\<rparr>)
        ((calm_readings 50000)\<lparr>rd_k := 60, rd_d := 50\<rparr>))
   \<and> \<not> (last_k (calculate_indicators
               (calculate_indicators (long_example\<lparr>k_value := 40, d_value := 50\<rparr>)
                  ((calm_readings 50000)\<lparr>rd_k := 60, rd_d := 50\<rparr>))
               ((calm_readings 50000)\<lparr>rd_k := 70, rd_d := 55\<rparr>))
           < last_d (calculate_indicators
               (calculate_indicators (long_example\<lparr>k_value := 40, d_value := 50\<rparr>)
                  ((calm_readings 50000)\<lparr>rd_k := 60, rd_d := 50\<rparr>))
               ((calm_readings 50000)\<lparr>rd_k := 70, rd_d := 55\<rparr>)))
   \<and> stoch_cross_over (calculate_indicators
        (calculate_indicators (long_example\<lparr>k_value := 40, d_value := 50\<rparr>)
           ((calm_readings 50000)\<lparr>rd_k := 60, rd_d := 50\<rparr>))
        ((calm_readings 50000)\<lparr>rd_k := 70, rd_d := 55\<rparr>))
   \<and> kdj_signal (calculate_indicators
        (calculate_indicators (long_example\<lparr>k_value := 40, d_value := 50\<rparr>)
           ((calm_readings 50000)\<lparr>rd_k := 60, rd_d := 50\<rparr>))
        ((calm_readings 50000)\<lparr>rd_k := 70, rd_d := 55\<rparr>)) = 1"
  by (simp add: calculate_indicators_def Let_def kdj_signal_def long_example_def
      init_strategy_def calm_readings_def)

section \<open>The live trader's orders\<close>

text \<open>
  Claim C9. When \<^verbatim>\<open>create_order\<close> raises (whatever the exception), \<^verbatim>\<open>buy_market\<close>
  and \<^verbatim>\<open>sell_market\<close> return \<^verbatim>\<open>None\<close> and leave the trader as it was; the trader
  changes only when the order call has answered.
\<close>

theorem order_failure_leaves_state:
  "fst (buy_market t quantity (Inl e) ticker) = None
   \<and> fst (snd (buy_market t quantity (Inl e) ticker)) = t
   \<and> fst (sell_market t quantity (Inl e)) = None
   \<and> fst (snd (sell_market t quantity (Inl e))) = t
   \<and> (fst (snd (buy_market t quantity created ticker)) \<noteq> t \<longrightarrow> (\<exists>ord. created = Inr ord))
   \<and> (fst (snd (sell_market t quantity created)) \<noteq> t \<longrightarrow> (\<exists>ord. created = Inr ord))"
  by (cases created) (simp_all add: buy_market_def sell_market_def Let_def)

theorem order_failure_leaves_state_witness:
  "fst (snd (buy_market (example_trader\<lparr>step_size_repr := ''0.001''\<rparr>) 0.5
               (Inr \<lparr>order_id = 1, fills = [Some 50000]\<rparr>) (Inr 50010)))
     \<noteq> example_trader\<lparr>step_size_repr := ''0.001''\<rparr>
   \<and> (\<exists>ord. Inr \<lparr>order_id = 1, fills = [Some 50000]\<rparr> = (Inr ord :: api_error + order_response))
   \<and> fst (snd (sell_market (example_trader\<lparr>step_size_repr := ''0.001'', position := 1\<rparr>) 0.5
               (Inr \<lparr>order_id = 2, fills = []\<rparr>)))
     \<noteq> example_trader\<lparr>step_size_repr := ''0.001'', position := 1\<rparr>
   \<and> fst (snd (buy_market (example_trader\<lparr>step_size_repr := ''0.001''\<rparr>) 0.5
               (Inl BinanceAPIException) (Inr 50010)))
     = example_trader\<lparr>step_size_repr := ''0.001''\<rparr>"
  using order_failure_leaves_state
      [of "example_trader\<lparr>step_size_repr := ''0.001''\<rparr>" "0.5" BinanceAPIException "Inr 50010"
          "Inr \<lparr>order_id = 1, fills = [Some 50000]\<rparr>"]
  by (simp add: buy_market_def sell_market_def Let_def example_trader_def round_quantity_def
      precision_def step_size_str_def quantize_down_def last_field_def rstrip_def)

text \<open>
  Claim C8, at the failing input. The step size 0.00001 prints as \<^verbatim>\<open>1e-05\<close>, which has
  no decimal point: the precision computed is 0, the quantity 0.123456 is truncated to 0
  and \<^verbatim>\<open>buy_market\<close> rejects it without submitting anything. With a step size that
  prints in positional form (0.0001) the truncation keeps the decimals.
\<close>

theorem round_quantity_exponent_form:
  "precision ''1e-05'' = 0
   \<and> round_quantity ''1e-05'' 0.123456 = 0
   \<and> buy_market example_trader 0.123456 created ticker = (None, example_trader, [])
   \<and> round_quantity ''0.0001'' 0.123456 = 0.1234"
  by (simp add: buy_market_def Let_def example_trader_def round_quantity_def
      precision_def step_size_str_def quantize_down_def last_field_def rstrip_def)

section \<open>Bars on a cold and on a warm array manager\<close>

lemma update_bar_simps:
  "am_count (update_bar a) = Suc (am_count a)"
  "am_size (update_bar a) = am_size a"
  "inited (update_bar a) = (inited a \<or> am_size a \<le> Suc (am_count a))"
  by (simp_all add: update_bar_def Let_def)

lemma on_bar_update_keeps:
  "pos (on_bar_update s bar) = pos s"
  "am (on_bar_update s bar) = update_bar (am s)"
  "orders (on_bar_update s bar) = orders s"
  "indicators_of (on_bar_update s bar) = indicators_of s"
  "trailing_stop_price (on_bar_update s bar) = trailing_stop_price s"
  "entry_price (on_bar_update s bar) = entry_price s"
  "atr_multiplier (on_bar_update s bar) = atr_multiplier s"
  "trailing_stop_activation_pct (on_bar_update s bar) = trailing_stop_activation_pct s"
  "intra_trade_low (on_bar_update s bar) =
     (if pos s < 0 then min (intra_trade_low s) (low_price bar) else intra_trade_low s)"
  "intra_trade_high (on_bar_update s bar) =
     (if 0 < pos s then max (intra_trade_high s) (high_price bar) else intra_trade_high s)"
  by (simp_all add: on_bar_update_def Let_def write_log_def indicators_of_def)

lemma on_bar_update_logs:
  "set (logs (on_bar_update s bar)) \<subseteq> set (logs s) \<union> {LogBarProgress, LogInitState, LogWarmup}"
  by (auto simp add: on_bar_update_def Let_def write_log_def)

lemma on_bar_inited:
  "inited (update_bar (am s)) \<Longrightarrow>
     on_bar s bar rd = generate_signals (signal_state s bar rd) bar rd"
  by (simp add: on_bar_def signal_state_def Let_def on_bar_update_keeps)

lemma on_bar_not_inited:
  "\<not> inited (update_bar (am s)) \<Longrightarrow>
     on_bar s bar rd =
       (if bar_count (on_bar_update s bar) mod 10 = 0
        then write_log LogWarmup (on_bar_update s bar) else on_bar_update s bar)"
  by (simp add: on_bar_def Let_def on_bar_update_keeps)

lemma on_bar_warmup:
  assumes "\<not> inited (update_bar (am s))"
  shows "am (on_bar s bar rd) = update_bar (am s)"
    and "orders (on_bar s bar rd) = orders s"
    and "indicators_of (on_bar s bar rd) = indicators_of s"
    and "set (logs (on_bar s bar rd)) \<subseteq> set (logs s) \<union> {LogBarProgress, LogInitState, LogWarmup}"
    and "pos (on_bar s bar rd) = pos s"
    and "trailing_stop_price (on_bar s bar rd) = trailing_stop_price s"
    and "atr_multiplier (on_bar s bar rd) = atr_multiplier s"
    and "intra_trade_low (on_bar s bar rd) =
     (if pos s < 0 then min (intra_trade_low s) (low_price bar) else intra_trade_low s)"
  using on_bar_update_logs [of s bar] on_bar_update_keeps [of s bar]
  unfolding on_bar_not_inited [OF assms] indicators_of_def
  by (auto simp add: write_log_def)

lemma calculate_indicators_keeps:
  "pos (calculate_indicators s rd) = pos s"
  "am (calculate_indicators s rd) = am s"
  "trailing_stop_price (calculate_indicators s rd) = trailing_stop_price s"
  "entry_price (calculate_indicators s rd) = entry_price s"
  "intra_trade_high (calculate_indicators s rd) = intra_trade_high s"
  "intra_trade_low (calculate_indicators s rd) = intra_trade_low s"
  "atr_multiplier (calculate_indicators s rd) = atr_multiplier s"
  "trailing_stop_activation_pct (calculate_indicators s rd) = trailing_stop_activation_pct s"
  "bar_count (calculate_indicators s rd) = bar_count s"
  "logs (calculate_indicators s rd) = logs s"
  "orders (calculate_indicators s rd) = orders s"
  "inited (am s) \<Longrightarrow> atr_value (calculate_indicators s rd) = rd_atr rd"
  by (simp_all add: calculate_indicators_def Let_def)

lemma signal_state_keeps:
  "pos (signal_state s bar rd) = pos s"
  "am (signal_state s bar rd) = update_bar (am s)"
  "trailing_stop_price (signal_state s bar rd) = trailing_stop_price s"
  "entry_price (signal_state s bar rd) = entry_price s"
  "atr_multiplier (signal_state s bar rd) = atr_multiplier s"
  "trailing_stop_activation_pct (signal_state s bar rd) = trailing_stop_activation_pct s"
  "intra_trade_low (signal_state s bar rd) =
     (if pos s < 0 then min (intra_trade_low s) (low_price bar) else intra_trade_low s)"
  "inited (update_bar (am s)) \<Longrightarrow> atr_value (signal_state s bar rd) = rd_atr rd"
  by (simp_all add: signal_state_def Let_def write_log_def calculate_indicators_keeps
      on_bar_update_keeps)

lemma manage_long_position_params:
  "atr_multiplier (snd (manage_long_position s bar)) = atr_multiplier s"
proof (cases "close_price bar > entry_price s * (1 + trailing_stop_activation_pct s)
    \<and> intra_trade_high s - atr_value s * atr_multiplier s > trailing_stop_price s")
  case True
  note upd = manage_long_position_update [OF conjunct1 [OF True] conjunct2 [OF True]]
  show ?thesis
    by (simp add: upd controlled_sell_eq write_log_def Let_def)
next
  case False
  note keep = manage_long_position_keep [OF False]
  show ?thesis
    by (simp add: keep controlled_sell_eq write_log_def)
qed

lemma manage_short_position_params:
  "atr_multiplier (snd (manage_short_position s bar)) = atr_multiplier s"
proof (cases "close_price bar < entry_price s * (1 - trailing_stop_activation_pct s)
    \<and> (trailing_stop_price s = 0
         \<or> intra_trade_low s + atr_value s * atr_multiplier s < trailing_stop_price s)")
  case True
  note upd = manage_short_position_update [OF conjunct1 [OF True] conjunct2 [OF True]]
  show ?thesis
    by (simp add: upd controlled_cover_eq write_log_def Let_def)
next
  case False
  note keep = manage_short_position_keep [OF False]
  show ?thesis
    by (simp add: keep controlled_cover_eq write_log_def)
qed

lemma on_bars_warmup:
  "\<not> inited (am s) \<Longrightarrow> am_count (am s) + length feed < am_size (am s) \<Longrightarrow>
     \<not> inited (am (on_bars s feed))
     \<and> am_count (am (on_bars s feed)) = am_count (am s) + length feed
     \<and> am_size (am (on_bars s feed)) = am_size (am s)
     \<and> orders (on_bars s feed) = orders s
     \<and> indicators_of (on_bars s feed) = indicators_of s
     \<and> set (logs (on_bars s feed))
         \<subseteq> set (logs s) \<union> {LogBarProgress, LogInitState, LogWarmup}"
proof (induction feed arbitrary: s)
  case Nil
  then show ?case by auto
next
  case (Cons x xs)
  let ?s' = "on_bar s (fst x) (snd x)"
  from Cons.prems have cold: "\<not> inited (update_bar (am s))"
    by (simp add: update_bar_simps)
  note w = on_bar_warmup [OF cold, of "fst x" "snd x"]
  from cold have a: "\<not> inited (am ?s')"
    by (simp add: w(1))
  from Cons.prems have b: "am_count (am ?s') + length xs < am_size (am ?s')"
    by (simp add: w(1) update_bar_simps)
  note ih = Cons.IH [OF a b]
  from ih w(4) have lg: "set (logs (on_bars ?s' xs))
      \<subseteq> set (logs s) \<union> {LogBarProgress, LogInitState, LogWarmup}"
    by blast
  from ih lg show ?case
    by (simp add: w(1) w(2) w(3) update_bar_simps)
qed

text \<open>
  Claim C6. While the array manager is not initialised, that is for every run of bars that
  keeps the number of bars stored below the lookback, the flag stays false, no order is
  issued, no indicator variable is written, and the log holds nothing but progress and
  warm-up messages. \<open>on_bar\<close> is a total function with no error result on this path:
  the bar is skipped, nothing is raised.
\<close>

theorem insufficient_data_no_decisions:
  "\<not> inited (am s) \<Longrightarrow> am_count (am s) + length feed < am_size (am s) \<Longrightarrow>
     \<not> inited (am (on_bars s feed))
     \<and> orders (on_bars s feed) = orders s
     \<and> indicators_of (on_bars s feed) = indicators_of s
     \<and> set (logs (on_bars s feed))
         \<subseteq> set (logs s) \<union> {LogBarProgress, LogInitState, LogWarmup}"
  using on_bars_warmup [of s feed] by blast

text \<open>
  The same readings open a long position at once when the array manager is initialised.
\<close>

theorem insufficient_data_no_decisions_witness:
  "\<not> inited (am init_strategy)
   \<and> am_count (am init_strategy)
        + length [(flat_bar 50000, eager_readings), (flat_bar 50100, eager_readings)]
      < am_size (am init_strategy)
   \<and> \<not> inited (am (on_bars init_strategy
          [(flat_bar 50000, eager_readings), (flat_bar 50100, eager_readings)]))
   \<and> orders (on_bars init_strategy
          [(flat_bar 50000, eager_readings), (flat_bar 50100, eager_readings)]) = []
   \<and> indicators_of (on_bars init_strategy
          [(flat_bar 50000, eager_readings), (flat_bar 50100, eager_readings)])
       = indicators_of init_strategy
   \<and> orders (on_bar (init_strategy\<lparr>am := \<lparr>am_count = 200, am_size = 200, inited = True\<rparr>\<rparr>)
          (flat_bar 50000) eager_readings)
       = [Order LONG OPEN 50000 0.01]"
proof -
  have h: "\<not> inited (am init_strategy)"
    "am_count (am init_strategy)
        + length [(flat_bar 50000, eager_readings), (flat_bar 50100, eager_readings)]
      < am_size (am init_strategy)"
    "orders init_strategy = []"
    by (simp_all add: init_strategy_def)
  have run: "orders (on_bar (init_strategy\<lparr>am := \<lparr>am_count = 200, am_size = 200, inited = True\<rparr>\<rparr>)
          (flat_bar 50000) eager_readings)
       = [Order LONG OPEN 50000 0.01]"
    by (simp add: on_bar_def on_bar_update_def update_bar_def calculate_indicators_def
        generate_signals_def long_signals_def rsi_signal_def macd_signal_def kdj_signal_def
        order_defs Let_def init_strategy_def flat_bar_def eager_readings_def)
  from h run insufficient_data_no_decisions [OF h(1) h(2)] show ?thesis
    by simp
qed

section \<open>The trailing stop over a run\<close>

lemma on_bar_long_stop:
  assumes "0 < pos s"
  shows "trailing_stop_price s \<le> trailing_stop_price (on_bar s bar rd)
     \<and> pos (on_bar s bar rd) = pos s"
proof (cases "inited (update_bar (am s))")
  case False
  then show ?thesis
    by (simp add: on_bar_warmup)
next
  case True
  let ?t = "signal_state s bar rd"
  from True assms have "on_bar s bar rd = snd (manage_long_position ?t bar)"
    by (simp add: on_bar_inited generate_signals_long signal_state_keeps)
  then show ?thesis
    by (simp add: manage_long_position_stop manage_long_position_no_entry signal_state_keeps)
qed

lemma on_bar_short_stop:
  assumes "pos s < 0"
  shows "pos (on_bar s bar rd) = pos s
      \<and> atr_multiplier (on_bar s bar rd) = atr_multiplier s
      \<and> intra_trade_low (on_bar s bar rd) = min (intra_trade_low s) (low_price bar)
      \<and> (trailing_stop_price s \<noteq> 0 \<longrightarrow>
           trailing_stop_price (on_bar s bar rd) \<le> trailing_stop_price s)
      \<and> (trailing_stop_price (on_bar s bar rd) = trailing_stop_price s
         \<or> trailing_stop_price (on_bar s bar rd)
            = min (intra_trade_low s) (low_price bar) + rd_atr rd * atr_multiplier s)"
proof (cases "inited (update_bar (am s))")
  case False
  with assms show ?thesis
    by (simp add: on_bar_warmup)
next
  case True
  let ?t = "signal_state s bar rd"
  from True assms have "on_bar s bar rd = snd (manage_short_position ?t bar)"
    by (simp add: on_bar_inited generate_signals_short signal_state_keeps)
  with True assms show ?thesis
    by (simp add: manage_short_position_stop manage_short_position_no_entry
        manage_short_position_params signal_state_keeps)
qed

lemma stop_trace_long:
  "0 < pos s \<Longrightarrow> sorted (trailing_stop_price s # stop_trace s feed)"
proof (induction feed arbitrary: s)
  case Nil
  then show ?case by simp
next
  case (Cons x xs)
  let ?s' = "on_bar s (fst x) (snd x)"
  from on_bar_long_stop [OF Cons.prems, of "fst x" "snd x"]
  have le: "trailing_stop_price s \<le> trailing_stop_price ?s'" and p: "0 < pos ?s'"
    using Cons.prems by simp_all
  from Cons.IH [OF p] le show ?case
    by (auto intro: order_trans)
qed

lemma stop_trace_short:
  "pos s < 0 \<Longrightarrow> 0 < trailing_stop_price s \<Longrightarrow> 0 < intra_trade_low s \<Longrightarrow>
   0 \<le> atr_multiplier s \<Longrightarrow> \<forall>x\<in>set feed. 0 < low_price (fst x) \<and> 0 \<le> rd_atr (snd x) \<Longrightarrow>
     sorted_wrt (\<ge>) (trailing_stop_price s # stop_trace s feed)"
proof (induction feed arbitrary: s)
  case Nil
  then show ?case by simp
next
  case (Cons x xs)
  let ?s' = "on_bar s (fst x) (snd x)"
  note st = on_bar_short_stop [OF Cons.prems(1), of "fst x" "snd x"]
  from Cons.prems have x: "0 < low_price (fst x)" "0 \<le> rd_atr (snd x)"
    by simp_all
  from Cons.prems(2) st have le: "trailing_stop_price ?s' \<le> trailing_stop_price s"
    by simp
  from Cons.prems(3) x(1) have low: "0 < min (intra_trade_low s) (low_price (fst x))"
    by simp
  from x(2) Cons.prems(4) have "0 \<le> rd_atr (snd x) * atr_multiplier s"
    by simp
  with low st Cons.prems(2) have pos': "0 < trailing_stop_price ?s'"
    by auto
  from Cons.prems have rest: "\<forall>x\<in>set xs. 0 < low_price (fst x) \<and> 0 \<le> rd_atr (snd x)"
    by simp
  have ih: "sorted_wrt (\<ge>) (trailing_stop_price ?s' # stop_trace ?s' xs)"
    using Cons.IH [of ?s'] Cons.prems(1,4) pos' low rest st by simp
  from ih le show ?case
    by (auto intro: order_trans)
qed

text \<open>
  Claim C1, as amended. While a long position is held, the stops after consecutive bars
  never decrease, and the stop changes only when the activation threshold is crossed and
  the candidate (highest price minus ATR times the multiplier) is strictly greater than
  the stop in force. While a short position is held, the stop changes only when the
  activation threshold is crossed and the candidate (lowest price plus ATR times the
  multiplier) is strictly smaller than the stop in force or the stop in force is 0; so the
  stop never increases on a bar that starts with a non-zero stop, and over a run from a
  positive stop with positive lows and non-negative ATR and multiplier the stops never
  increase.
\<close>

theorem trailing_stop_ratchet:
  "(0 < pos s \<longrightarrow> sorted (trailing_stop_price s # stop_trace s feed))
   \<and> (trailing_stop_price (snd (manage_long_position s bar)) \<noteq> trailing_stop_price s \<longrightarrow>
        close_price bar > entry_price s * (1 + trailing_stop_activation_pct s)
        \<and> trailing_stop_price (snd (manage_long_position s bar))
            = intra_trade_high s - atr_value s * atr_multiplier s
        \<and> trailing_stop_price s < intra_trade_high s - atr_value s * atr_multiplier s)
   \<and> (pos s < 0 \<and> trailing_stop_price s \<noteq> 0 \<longrightarrow>
        trailing_stop_price (on_bar s bar rd) \<le> trailing_stop_price s)
   \<and> (pos s < 0 \<and> 0 < trailing_stop_price s \<and> 0 < intra_trade_low s
        \<and> 0 \<le> atr_multiplier s
        \<and> (\<forall>x\<in>set feed. 0 < low_price (fst x) \<and> 0 \<le> rd_atr (snd x)) \<longrightarrow>
        sorted_wrt (\<ge>) (trailing_stop_price s # stop_trace s feed))
   \<and> (trailing_stop_price (snd (manage_short_position s bar)) \<noteq> trailing_stop_price s \<longrightarrow>
        close_price bar < entry_price s * (1 - trailing_stop_activation_pct s)
        \<and> trailing_stop_price (snd (manage_short_position s bar))
            = intra_trade_low s + atr_value s * atr_multiplier s
        \<and> (trailing_stop_price s = 0
            \<or> intra_trade_low s + atr_value s * atr_multiplier s < trailing_stop_price s))"
proof (intro conjI impI)
  assume "0 < pos s"
  then show "sorted (trailing_stop_price s # stop_trace s feed)"
    by (rule stop_trace_long)
next
  assume "pos s < 0 \<and> trailing_stop_price s \<noteq> 0"
  with on_bar_short_stop [of s bar rd]
  show "trailing_stop_price (on_bar s bar rd) \<le> trailing_stop_price s"
    by simp
next
  assume "pos s < 0 \<and> 0 < trailing_stop_price s \<and> 0 < intra_trade_low s
        \<and> 0 \<le> atr_multiplier s
        \<and> (\<forall>x\<in>set feed. 0 < low_price (fst x) \<and> 0 \<le> rd_atr (snd x))"
  then show "sorted_wrt (\<ge>) (trailing_stop_price s # stop_trace s feed)"
    using stop_trace_short [of s feed] by blast
next
  assume a: "trailing_stop_price (snd (manage_long_position s bar)) \<noteq> trailing_stop_price s"
  then show "close_price bar > entry_price s * (1 + trailing_stop_activation_pct s)"
    and "trailing_stop_price (snd (manage_long_position s bar))
            = intra_trade_high s - atr_value s * atr_multiplier s"
    and "trailing_stop_price s < intra_trade_high s - atr_value s * atr_multiplier s"
    by (simp_all add: manage_long_position_stop split: if_splits)
next
  assume a: "trailing_stop_price (snd (manage_short_position s bar)) \<noteq> trailing_stop_price s"
  then show "close_price bar < entry_price s * (1 - trailing_stop_activation_pct s)"
    and "trailing_stop_price (snd (manage_short_position s bar))
            = intra_trade_low s + atr_value s * atr_multiplier s"
    and "trailing_stop_price s = 0
            \<or> intra_trade_low s + atr_value s * atr_multiplier s < trailing_stop_price s"
    by (simp_all add: manage_short_position_stop split: if_splits)
qed

theorem trailing_stop_ratchet_witness:
  "0 < pos long_example
   \<and> sorted (trailing_stop_price long_example
        # stop_trace long_example
            [(flat_bar 52000, calm_readings 52000), (flat_bar 51500, calm_readings 51500)])
   \<and> trailing_stop_price
        (snd (manage_long_position (long_example\<lparr>intra_trade_high := 52000\<rparr>) (flat_bar 52000)))
       \<noteq> trailing_stop_price (long_example\<lparr>intra_trade_high := 52000\<rparr>)
   \<and> trailing_stop_price
        (snd (manage_long_position (long_example\<lparr>intra_trade_high := 52000\<rparr>) (flat_bar 52000)))
       = 50750
   \<and> trailing_stop_price (long_example\<lparr>intra_trade_high := 52000\<rparr>)
       < intra_trade_high (long_example\<lparr>intra_trade_high := 52000\<rparr>)
         - atr_value (long_example\<lparr>intra_trade_high := 52000\<rparr>)
           * atr_multiplier (long_example\<lparr>intra_trade_high := 52000\<rparr>)
   \<and> pos short_example < 0 \<and> trailing_stop_price short_example \<noteq> 0
   \<and> trailing_stop_price (on_bar short_example (flat_bar 49000) (calm_readings 49000))
       \<le> trailing_stop_price short_example
   \<and> 0 < trailing_stop_price short_example \<and> 0 < intra_trade_low short_example
   \<and> 0 \<le> atr_multiplier short_example
   \<and> 0 < low_price (flat_bar 49000) \<and> 0 \<le> rd_atr (calm_readings 49000)
   \<and> 0 < low_price (flat_bar 49500) \<and> 0 \<le> rd_atr (calm_readings 49500)
   \<and> sorted_wrt (\<ge>) (trailing_stop_price short_example
        # stop_trace short_example
            [(flat_bar 49000, calm_readings 49000), (flat_bar 49500, calm_readings 49500)])
   \<and> trailing_stop_price
        (snd (manage_short_position (short_example\<lparr>trailing_stop_price := 0\<rparr>) (flat_bar 49000)))
       \<noteq> trailing_stop_price (short_example\<lparr>trailing_stop_price := 0\<rparr>)
   \<and> close_price (flat_bar 49000)
        < entry_price (short_example\<lparr>trailing_stop_price := 0\<rparr>)
          * (1 - trailing_stop_activation_pct (short_example\<lparr>trailing_stop_price := 0\<rparr>))
   \<and> trailing_stop_price (short_example\<lparr>trailing_stop_price := 0\<rparr>) = 0"
proof -
  let ?feedL = "[(flat_bar 52000, calm_readings 52000), (flat_bar 51500, calm_readings 51500)]"
  let ?feedS = "[(flat_bar 49000, calm_readings 49000), (flat_bar 49500, calm_readings 49500)]"
  let ?l = "long_example\<lparr>intra_trade_high := 52000\<rparr>"
  let ?z = "short_example\<lparr>trailing_stop_price := 0\<rparr>"
  have l: "0 < pos long_example"
    by (simp add: long_example_def init_strategy_def)
  have la: "trailing_stop_price (snd (manage_long_position ?l (flat_bar 52000))) = 50750"
    "trailing_stop_price ?l = 48750"
    by (simp_all add: manage_long_position_stop long_example_def init_strategy_def flat_bar_def)
  have s: "pos short_example < 0" "trailing_stop_price short_example \<noteq> 0"
    "0 < trailing_stop_price short_example" "0 < intra_trade_low short_example"
    "0 \<le> atr_multiplier short_example"
    by (simp_all add: short_example_def init_strategy_def)
  have f: "0 < low_price (flat_bar 49000)" "0 \<le> rd_atr (calm_readings 49000)"
    "0 < low_price (flat_bar 49500)" "0 \<le> rd_atr (calm_readings 49500)"
    by (simp_all add: flat_bar_def calm_readings_def)
  then have fa: "\<forall>x\<in>set ?feedS. 0 < low_price (fst x) \<and> 0 \<le> rd_atr (snd x)"
    by simp
  have za: "trailing_stop_price (snd (manage_short_position ?z (flat_bar 49000))) = 51250"
    "trailing_stop_price ?z = 0"
    by (simp_all add: manage_short_position_stop short_example_def init_strategy_def flat_bar_def)
  note t1 = trailing_stop_ratchet [of long_example ?feedL "flat_bar 52000" "calm_readings 52000"]
  note t2 = trailing_stop_ratchet [of ?l ?feedL "flat_bar 52000" "calm_readings 52000"]
  note t3 = trailing_stop_ratchet [of short_example ?feedS "flat_bar 49000" "calm_readings 49000"]
  note t4 = trailing_stop_ratchet [of ?z ?feedS "flat_bar 49000" "calm_readings 49000"]
  from t1 l have c1: "sorted (trailing_stop_price long_example # stop_trace long_example ?feedL)"
    by blast
  from t2 la have c2: "trailing_stop_price ?l
       < intra_trade_high ?l - atr_value ?l * atr_multiplier ?l"
    by simp
  from t3 s have c3: "trailing_stop_price (on_bar short_example (flat_bar 49000) (calm_readings 49000))
       \<le> trailing_stop_price short_example"
    by blast
  from t3 s fa have c4: "sorted_wrt (\<ge>) (trailing_stop_price short_example
        # stop_trace short_example ?feedS)"
    by blast
  from t4 za have c5: "close_price (flat_bar 49000)
        < entry_price ?z * (1 - trailing_stop_activation_pct ?z)"
    by simp
  from l la s f za c1 c2 c3 c4 c5 show ?thesis
    by simp
qed

text \<open>
  The claim as stated fails on the short side: a short position whose stop is 0, on a bar
  that crosses the activation threshold, adopts the candidate 51250 although it is not
  smaller than the stop in force, and the stop rises from 0 (to 50250 on a full bar, whose
  readings carry the ATR).
\<close>

theorem short_zero_stop_loosens_counterexample:
  "pos (short_example\<lparr>trailing_stop_price := 0\<rparr>) < 0
   \<and> close_price (flat_bar 49000)
        < entry_price (short_example\<lparr>trailing_stop_price := 0\<rparr>)
          * (1 - trailing_stop_activation_pct (short_example\<lparr>trailing_stop_price := 0\<rparr>))
   \<and> \<not> intra_trade_low (short_example\<lparr>trailing_stop_price := 0\<rparr>)
          + atr_value (short_example\<lparr>trailing_stop_price := 0\<rparr>)
            * atr_multiplier (short_example\<lparr>trailing_stop_price := 0\<rparr>)
        < trailing_stop_price (short_example\<lparr>trailing_stop_price := 0\<rparr>)
   \<and> trailing_stop_price
        (snd (manage_short_position (short_example\<lparr>trailing_stop_price := 0\<rparr>)
                (flat_bar 49000))) = 51250
   \<and> trailing_stop_price (short_example\<lparr>trailing_stop_price := 0\<rparr>)
        < trailing_stop_price
            (snd (manage_short_position (short_example\<lparr>trailing_stop_price := 0\<rparr>)
                    (flat_bar 49000)))
   \<and> \<not> sorted_wrt (\<ge>)
          (trailing_stop_price (short_example\<lparr>trailing_stop_price := 0\<rparr>)
           # stop_trace (short_example\<lparr>trailing_stop_price := 0\<rparr>)
               [(flat_bar 49000, calm_readings 49000)])"
proof -
  let ?s = "short_example\<lparr>trailing_stop_price := 0\<rparr>"
  have i: "inited (update_bar (am ?s))" "pos ?s < 0"
    by (simp_all add: update_bar_simps short_example_def init_strategy_def)
  have ob: "on_bar ?s (flat_bar 49000) (calm_readings 49000)
      = snd (manage_short_position (signal_state ?s (flat_bar 49000) (calm_readings 49000))
               (flat_bar 49000))"
    using i by (simp add: on_bar_inited generate_signals_short signal_state_keeps)
  have tr: "trailing_stop_price (on_bar ?s (flat_bar 49000) (calm_readings 49000)) = 50250"
    unfolding ob using i
    by (simp add: manage_short_position_stop signal_state_keeps)
      (simp add: short_example_def init_strategy_def flat_bar_def calm_readings_def)
  have m: "trailing_stop_price (snd (manage_short_position ?s (flat_bar 49000))) = 51250"
    by (simp add: manage_short_position_stop short_example_def init_strategy_def flat_bar_def)
  show ?thesis
    unfolding m by (simp add: tr) (simp add: short_example_def init_strategy_def flat_bar_def)
qed

end
